theory Spec2Isabelle
  imports Main "HOL-Library.Sublist" "HOL-Library.AList"
begin

section \<open>JavaScript values\<close>

text \<open>
  The services exchange JSON documents over the bus and keep them in
  \<^verbatim>\<open>measurements.json\<close>. A document is a value of \<open>json\<close>; an object is an association
  list in property order. JavaScript's \<^verbatim>\<open>undefined\<close> is \<open>None\<close> of \<open>json option\<close>:
  a property whose value is \<^verbatim>\<open>undefined\<close> is modelled as absent, which is what
  \<^verbatim>\<open>JSON.stringify\<close> makes of it. Numbers are the integers (timestamps, counts, sizes).
  A string is a list of 8-bit code units. No value of a parsed document is a function.
\<close>

datatype json =
    JNull
  | JBool bool
  | JNum int
  | JStr string
  | JArr "json list"
  | JObj "(string \<times> json) list"

type_synonym props = "(string \<times> json) list"

text \<open>An exception value: \<^verbatim>\<open>error.message\<close> and \<^verbatim>\<open>error.code\<close>.\<close>

record js_error =
  message :: string
  code :: "string option"

definition TypeError :: "string \<Rightarrow> js_error" where
  "TypeError m = \<lparr>message = m, code = None\<rparr>"

text \<open>Decimal rendering of a natural number. It is how a template literal prints a clock
  reading (\<^verbatim>\<open>Date.now()\<close> stays below \<open>2^53\<close>), a length and an index.\<close>

fun dec :: "nat \<Rightarrow> string" where
  "dec n = (if n < 10 then [char_of (48 + n)] else dec (n div 10) @ [char_of (48 + n mod 10)])"

declare dec.simps [simp del]

definition dec_int :: "int \<Rightarrow> string" where
  "dec_int i = (if i < 0 then CHR ''-'' # dec (nat (- i)) else dec (nat i))"

text \<open>\<^verbatim>\<open>o.k\<close> on a value that is not \<^verbatim>\<open>null\<close>: \<^verbatim>\<open>undefined\<close> unless \<open>o\<close> is an object with
  the property. (The properties read in this program are never \<^verbatim>\<open>length\<close> or an index.)\<close>

fun lookup :: "json \<Rightarrow> string \<Rightarrow> json option" where
  "lookup (JObj ps) k = map_of ps k"
| "lookup _ k = None"

text \<open>\<^verbatim>\<open>o.k = v\<close>; assigning \<^verbatim>\<open>undefined\<close> leaves no property in the serialised object.\<close>

definition set_prop :: "props \<Rightarrow> string \<Rightarrow> json option \<Rightarrow> props" where
  "set_prop ps k v = (case v of None \<Rightarrow> AList.delete k ps | Some x \<Rightarrow> AList.update k x ps)"

text \<open>An object literal \<^verbatim>\<open>{k1: v1, ...}\<close> whose values may be \<^verbatim>\<open>undefined\<close>.\<close>

definition obj :: "(string \<times> json option) list \<Rightarrow> props" where
  "obj kvs = fold (\<lambda>(k, v) ps. set_prop ps k v) kvs []"

text \<open>The own enumerable properties that a spread \<^verbatim>\<open>{...v}\<close> copies.\<close>

fun own_props :: "json \<Rightarrow> props" where
  "own_props (JObj ps) = ps"
| "own_props (JArr xs) = zip (map dec [0..<length xs]) xs"
| "own_props (JStr s) = zip (map dec [0..<length s]) (map (\<lambda>c. JStr [c]) s)"
| "own_props _ = []"

text \<open>\<^verbatim>\<open>{...a, ...b}\<close>: the properties of \<open>b\<close> overwrite those of \<open>a\<close> in place, new ones
  are appended.\<close>

definition spread :: "props \<Rightarrow> props \<Rightarrow> props" where
  "spread a b = fold (\<lambda>(k, v) ps. AList.update k v ps) b a"

text \<open>\<^verbatim>\<open>a === b\<close>. Two objects or arrays that were parsed separately are never identical.\<close>

fun strict_eq :: "json option \<Rightarrow> json option \<Rightarrow> bool" where
  "strict_eq None None = True"
| "strict_eq (Some JNull) (Some JNull) = True"
| "strict_eq (Some (JBool a)) (Some (JBool b)) = (a = b)"
| "strict_eq (Some (JNum a)) (Some (JNum b)) = (a = b)"
| "strict_eq (Some (JStr a)) (Some (JStr b)) = (a = b)"
| "strict_eq _ _ = False"

text \<open>
  String conversion in a template literal \<^verbatim>\<open>`${v}`\<close>. An object is converted by its
  \<^verbatim>\<open>toString\<close>: the inherited one gives \<^verbatim>\<open>[object Object]\<close>, but an own property \<^verbatim>\<open>toString\<close> of
  a parsed document is not callable, and then the conversion throws a \<^verbatim>\<open>TypeError\<close>. An
  array joins the conversions of its elements with commas, \<^verbatim>\<open>null\<close> giving the empty string,
  and throws when one of them does. An integer up to \<open>2^53 - 1\<close> in magnitude prints its
  decimal digits; a larger one prints rounded digits or exponent notation, which the
  parameter \<open>big\<close> stands for.
\<close>

fun join :: "string \<Rightarrow> string list \<Rightarrow> string" where
  "join sep [] = []"
| "join sep [x] = x"
| "join sep (x # y # ys) = x @ sep @ join sep (y # ys)"

fun stringifies :: "json \<Rightarrow> bool" where
  "stringifies (JObj ps) = (map_of ps ''toString'' = None)"
| "stringifies (JArr xs) = list_all stringifies xs"
| "stringifies _ = True"

definition number_string :: "(int \<Rightarrow> string) \<Rightarrow> int \<Rightarrow> string" where
  "number_string big n = (if \<bar>n\<bar> \<le> 9007199254740991 then dec_int n else big n)"

fun to_string :: "(int \<Rightarrow> string) \<Rightarrow> json \<Rightarrow> string" where
  "to_string big JNull = ''null''"
| "to_string big (JBool b) = (if b then ''true'' else ''false'')"
| "to_string big (JNum n) = number_string big n"
| "to_string big (JStr s) = s"
| "to_string big (JArr xs) = join '','' (map (\<lambda>x. if x = JNull then [] else to_string big x) xs)"
| "to_string big (JObj ps) = ''[object Object]''"

text \<open>Whether \<^verbatim>\<open>`${v}`\<close> evaluates, and what it evaluates to or throws.\<close>

definition printable :: "json option \<Rightarrow> bool" where
  "printable v = (case v of None \<Rightarrow> True | Some x \<Rightarrow> stringifies x)"

definition template :: "(int \<Rightarrow> string) \<Rightarrow> json option \<Rightarrow> js_error + string" where
  "template big v =
     (case v of
        None \<Rightarrow> Inr ''undefined''
      | Some x \<Rightarrow>
          if stringifies x then Inr (to_string big x)
          else Inl (TypeError ''Cannot convert object to primitive value''))"

text \<open>\<^verbatim>\<open>xs.slice(0, end)\<close> for an integer \<open>stop\<close>: a negative \<open>stop\<close> counts from the back.\<close>

definition slice0 :: "'a list \<Rightarrow> int \<Rightarrow> 'a list" where
  "slice0 xs stop =
     (let len = int (length xs);
          k = (if stop < 0 then max (len + stop) 0 else min stop len)
      in take (nat k) xs)"

text \<open>\<^verbatim>\<open>xs.findIndex(p)\<close>; \<open>None\<close> is \<open>-1\<close>.\<close>

fun findIndex :: "('a \<Rightarrow> bool) \<Rightarrow> 'a list \<Rightarrow> nat option" where
  "findIndex p [] = None"
| "findIndex p (x # xs) = (if p x then Some 0 else map_option Suc (findIndex p xs))"

text \<open>What a handler reads from its surroundings during one invocation: the clock
  (\<^verbatim>\<open>Date.now()\<close>), its ISO rendering (\<^verbatim>\<open>new Date().toISOString()\<close>) and the random suffix
  (\<^verbatim>\<open>Math.random().toString(36).substr(2, 9)\<close>).\<close>

record clock =
  now :: nat
  iso :: string
  rnd :: string

section \<open>The result store (management-api/src/storage.js)\<close>

text \<open>
  The contents of \<^verbatim>\<open>data/measurements.json\<close>: \<open>Unreadable\<close> when the file is missing or
  is not JSON, otherwise the array it holds. The store is the file's only writer and
  writes arrays of objects only.
\<close>

datatype disk_file = Unreadable | Content "json list"

text \<open>
  How a call of \<^verbatim>\<open>fs.writeFile\<close> ends: it resolves; it rejects before the file was
  touched; or it rejects after the file was truncated, leaving it unparseable.
\<close>

datatype write_outcome = WriteOk | WriteRefused | WriteTorn

definition writeFile :: "write_outcome \<Rightarrow> disk_file \<Rightarrow> json list \<Rightarrow> bool \<times> disk_file" where
  "writeFile w f d =
     (case w of
        WriteOk \<Rightarrow> (True, Content d)
      | WriteRefused \<Rightarrow> (False, f)
      | WriteTorn \<Rightarrow> (False, Unreadable))"

definition loadAll :: "disk_file \<Rightarrow> json list" where
  "loadAll f = (case f of Content d \<Rightarrow> d | Unreadable \<Rightarrow> [])"

definition storageId :: "clock \<Rightarrow> string" where
  "storageId c = ''meas_'' @ dec (now c) @ ''_'' @ rnd c"

definition measurement :: "clock \<Rightarrow> json \<Rightarrow> json" where
  "measurement c result =
     JObj (spread (own_props result)
       [(''_persisted'', JBool True),
        (''_savedAt'', JStr (iso c)),
        (''_id'', JStr (storageId c))])"

text \<open>The log line \<^verbatim>\<open>console.log(`... ${result.jobId}`)\<close>: it throws when \<^verbatim>\<open>result\<close> is \<^verbatim>\<open>null\<close> and
  when the job id cannot be converted to a string.\<close>

definition logs_jobId :: "json \<Rightarrow> bool" where
  "logs_jobId result = (result \<noteq> JNull \<and> printable (lookup result ''jobId''))"

text \<open>\<^verbatim>\<open>saveMeasurement(result)\<close>: the returned flag and the file afterwards. The log line
  follows the write inside the \<^verbatim>\<open>try\<close>: when it throws, the \<^verbatim>\<open>catch\<close> returns false although
  the file has been written.\<close>

definition saveMeasurement :: "clock \<Rightarrow> write_outcome \<Rightarrow> disk_file \<Rightarrow> json \<Rightarrow> bool \<times> disk_file" where
  "saveMeasurement c w f result =
     (let data = loadAll f;
          data' = measurement c result # data;
          trimmedData = take 1000 data'
      in case writeFile w f trimmedData of
           (True, f') \<Rightarrow> (logs_jobId result, f')
         | (False, f') \<Rightarrow> (False, f'))"

text \<open>A run of appends, each with its own clock reading and write outcome.\<close>

fun appends :: "disk_file \<Rightarrow> (clock \<times> write_outcome \<times> json) list \<Rightarrow> disk_file" where
  "appends f [] = f"
| "appends f ((c, w, r) # ops) = appends (snd (saveMeasurement c w f r)) ops"

text \<open>\<^verbatim>\<open>getByType(type, limit = 50)\<close> and \<^verbatim>\<open>getRecent(limit = 100)\<close>; \<open>None\<close> is an omitted
  limit.\<close>

definition getByType :: "disk_file \<Rightarrow> json option \<Rightarrow> int option \<Rightarrow> json list" where
  "getByType f ty limit =
     slice0 (filter (\<lambda>item. strict_eq (lookup item ''type'') ty) (loadAll f))
       (case limit of None \<Rightarrow> 50 | Some l \<Rightarrow> l)"

definition getRecent :: "disk_file \<Rightarrow> int option \<Rightarrow> json list" where
  "getRecent f limit = slice0 (loadAll f) (case limit of None \<Rightarrow> 100 | Some l \<Rightarrow> l)"

text \<open>The routes' \<^verbatim>\<open>parseInt(req.query.limit) || d\<close>; \<open>None\<close> is \<^verbatim>\<open>NaN\<close>.\<close>

definition route_limit :: "int option \<Rightarrow> int \<Rightarrow> int" where
  "route_limit parsed d = (case parsed of None \<Rightarrow> d | Some n \<Rightarrow> if n = 0 then d else n)"

definition get_measurements :: "disk_file \<Rightarrow> int option \<Rightarrow> json list" where
  "get_measurements f parsed = getRecent f (Some (route_limit parsed 100))"

definition get_measurements_type :: "disk_file \<Rightarrow> string \<Rightarrow> int option \<Rightarrow> json list" where
  "get_measurements_type f ty parsed = getByType f (Some (JStr ty)) (Some (route_limit parsed 50))"

section \<open>The management API (management-api/src/index.js)\<close>

text \<open>What a handler does to the outside: a message published on a bus topic, a message
  sent to a WebSocket client, an HTTP response (status and body).\<close>

datatype effect = Publish string json | Send nat json | Respond nat json

text \<open>How one call of the connection's \<^verbatim>\<open>publish\<close> ends: it returns, or it throws (the
  connection is closed or draining).\<close>

datatype bus = Accepts | Rejects js_error

text \<open>A bus message's \<^verbatim>\<open>JSON.parse(msg.data)\<close>: it throws, or yields a document.\<close>

datatype payload = Malformed | Parsed json

record api =
  natsConnection :: bool
  jobResults :: "json list"
  storage :: disk_file
  clients :: "(nat \<times> bool) list"

text \<open>\<open>natsConnection\<close> is false when \<^verbatim>\<open>connectToNATS\<close> failed and left the field \<^verbatim>\<open>null\<close>;
  \<open>clients\<close> are the WebSocket clients, each with whether its \<^verbatim>\<open>readyState\<close> is \<^verbatim>\<open>OPEN\<close>.\<close>

definition nats_publish :: "bool \<Rightarrow> bus \<Rightarrow> js_error + unit" where
  "nats_publish conn b =
     (if \<not> conn then Inl (TypeError ''Cannot read properties of null (reading 'publish')'')
      else case b of Accepts \<Rightarrow> Inr () | Rejects err \<Rightarrow> Inl err)"

definition generateJobId :: "clock \<Rightarrow> string" where
  "generateJobId c = ''job_'' @ dec (now c) @ ''_'' @ rnd c"

definition new_job :: "clock \<Rightarrow> json \<Rightarrow> json" where
  "new_job c body =
     JObj (obj
       [(''id'', Some (JStr (generateJobId c))),
        (''type'', lookup body ''type''),
        (''target'', lookup body ''target''),
        (''timestamp'', Some (JNum (int (now c)))),
        (''status'', Some (JStr ''submitted''))])"

text \<open>The handler of \<^verbatim>\<open>POST /api/jobs\<close> on the request body \<^verbatim>\<open>req.body\<close>.\<close>

definition post_jobs :: "clock \<Rightarrow> bus \<Rightarrow> api \<Rightarrow> json \<Rightarrow> api \<times> effect list" where
  "post_jobs c b s body =
     (let job = new_job c body
      in case nats_publish (natsConnection s) b of
           Inr _ \<Rightarrow>
             (s\<lparr>jobResults := jobResults s @ [job]\<rparr>,
              [Publish ''mmn.jobs.submit'' job,
               Respond 200 (JObj [(''success'', JBool True), (''jobId'', JStr (generateJobId c))])])
         | Inl err \<Rightarrow>
             (s, [Respond 500 (JObj [(''success'', JBool False), (''error'', JStr (message err))])]))"

definition broadcastToWebSocket :: "api \<Rightarrow> json \<Rightarrow> effect list" where
  "broadcastToWebSocket s msg = map (\<lambda>cl. Send (fst cl) msg) (filter snd (clients s))"

definition merge_job :: "json list \<Rightarrow> json \<Rightarrow> json list" where
  "merge_job jobs result =
     (case findIndex (\<lambda>j. strict_eq (lookup j ''id'') (lookup result ''jobId'')) jobs of
        None \<Rightarrow> jobs
      | Some jobIndex \<Rightarrow>
          jobs[jobIndex := JObj (spread (own_props (jobs ! jobIndex)) (own_props result))])"

text \<open>The body of the loop of \<^verbatim>\<open>startResultListener\<close> for one message. The callback of
  \<^verbatim>\<open>findIndex\<close> reads \<^verbatim>\<open>result.jobId\<close>, which throws for \<^verbatim>\<open>null\<close>; it runs only when the job table
  is not empty. The loop's \<^verbatim>\<open>catch\<close> logs and goes on. The log line after the broadcast may
  throw as well, with nothing left to do.\<close>

definition on_result :: "clock \<Rightarrow> write_outcome \<Rightarrow> api \<Rightarrow> payload \<Rightarrow> api \<times> effect list" where
  "on_result c w s p =
     (case p of
        Malformed \<Rightarrow> (s, [])
      | Parsed result \<Rightarrow>
          if result = JNull \<and> jobResults s \<noteq> [] then (s, [])
          else
            (let jobs = merge_job (jobResults s) result;
                 saved = saveMeasurement c w (storage s) result
             in (s\<lparr>jobResults := jobs, storage := snd saved\<rparr>,
                 broadcastToWebSocket s (JObj [(''type'', JStr ''job_result''), (''data'', result)]))))"

section \<open>The worker registry (anchor-service/src/index.js)\<close>

text \<open>An announcement as the workers publish it, and the record the registry keeps:
  the announcement's fields with \<^verbatim>\<open>lastSeen\<close>, \<^verbatim>\<open>healthy\<close> and \<^verbatim>\<open>connectionTime\<close> set over
  them. Logging and the broadcast of the module list do not touch the registry and are
  left out.\<close>

record announcement =
  a_name :: string
  a_version :: string
  a_type :: string
  a_capabilities :: "string list"
  a_timestamp :: int
  a_rfcCompliance :: "string list"

record worker =
  announced :: announcement
  lastSeen :: int
  healthy :: bool
  connectionTime :: string

text \<open>\<^verbatim>\<open>this.modules\<close>, a \<^verbatim>\<open>Map\<close> in insertion order.\<close>

type_synonym registry = "(string \<times> worker) list"

definition handleModuleAnnouncement :: "clock \<Rightarrow> registry \<Rightarrow> announcement \<Rightarrow> registry" where
  "handleModuleAnnouncement c modules moduleInfo =
     AList.update (a_name moduleInfo)
       \<lparr>announced = moduleInfo, lastSeen = int (now c), healthy = True, connectionTime = iso c\<rparr>
       modules"

text \<open>One tick of the interval of \<^verbatim>\<open>startHealthMonitoring\<close>, at clock reading \<open>t\<close>.\<close>

definition sweep_module :: "int \<Rightarrow> worker \<Rightarrow> worker" where
  "sweep_module t m = (if t - lastSeen m > 30000 then m\<lparr>healthy := False\<rparr> else m)"

definition sweep :: "int \<Rightarrow> registry \<Rightarrow> registry" where
  "sweep t modules = map (\<lambda>e. (fst e, sweep_module t (snd e))) modules"

text \<open>A run of ticks with no announcement in between.\<close>

definition sweeps :: "int list \<Rightarrow> registry \<Rightarrow> registry" where
  "sweeps ts modules = fold sweep ts modules"

section \<open>String helpers of the workers\<close>

text \<open>\<^verbatim>\<open>s.includes(t)\<close>.\<close>

fun str_includes :: "string \<Rightarrow> string \<Rightarrow> bool" where
  "str_includes [] t = (t = [])"
| "str_includes (c # cs) t = (prefix t (c # cs) \<or> str_includes cs t)"

text \<open>\<^verbatim>\<open>s.toLowerCase()\<close> on code units below 256: the ASCII capitals and the Latin-1
  capitals (all of 192 to 222 but the multiplication sign 215).\<close>

definition lower_char :: "char \<Rightarrow> char" where
  "lower_char c =
     (let n = (of_char c :: nat)
      in if (65 \<le> n \<and> n \<le> 90) \<or> (192 \<le> n \<and> n \<le> 222 \<and> n \<noteq> 215) then char_of (n + 32) else c)"

definition toLowerCase :: "string \<Rightarrow> string" where
  "toLowerCase s = map lower_char s"

text \<open>The line terminators that \<^verbatim>\<open>.\<close> of a regular expression does not match, and the
  white space that \<^verbatim>\<open>trim()\<close> removes, among code units below 256.\<close>

definition is_line_terminator :: "char \<Rightarrow> bool" where
  "is_line_terminator c = (c = CHR 0x0A \<or> c = CHR 0x0D)"

definition is_white_space :: "char \<Rightarrow> bool" where
  "is_white_space c = (c = CHR 0x09 \<or> c = CHR 0x0A \<or> c = CHR 0x0B \<or> c = CHR 0x0C \<or> c = CHR 0x0D
     \<or> c = CHR 0x20 \<or> c = CHR 0xA0)"

definition trim :: "string \<Rightarrow> string" where
  "trim s = rev (dropWhile is_white_space (rev (dropWhile is_white_space s)))"

text \<open>\<^verbatim>\<open>.replace(/^(https?|ftp):\/\//, '')\<close>.\<close>

definition strip_protocol :: "string \<Rightarrow> string" where
  "strip_protocol s =
     (if prefix ''https://'' s then drop 8 s
      else if prefix ''http://'' s then drop 7 s
      else if prefix ''ftp://'' s then drop 6 s
      else s)"

text \<open>\<^verbatim>\<open>.replace(/\/.*$/, '')\<close>: the leftmost match starts at the first slash that only
  characters matched by \<^verbatim>\<open>.\<close> separate from the end of the string, since \<^verbatim>\<open>$\<close> without the
  \<^verbatim>\<open>m\<close> flag is the end of the input.\<close>

fun strip_path :: "string \<Rightarrow> string" where
  "strip_path [] = []"
| "strip_path (c # cs) =
     (if c = CHR ''/'' \<and> \<not> list_ex is_line_terminator cs then [] else c # strip_path cs)"

text \<open>\<^verbatim>\<open>.replace(/[;&|`$<>]/g, '')\<close>.\<close>

definition is_shell_meta :: "char \<Rightarrow> bool" where
  "is_shell_meta c = (c = CHR '';'' \<or> c = CHR ''&'' \<or> c = CHR ''|'' \<or> c = CHR 0x60 \<or> c = CHR ''$''
     \<or> c = CHR ''<'' \<or> c = CHR ''>'')"

definition strip_meta :: "string \<Rightarrow> string" where
  "strip_meta s = filter (\<lambda>c. \<not> is_shell_meta c) s"

text \<open>\<^verbatim>\<open>.replace(/^www\./, '')\<close>.\<close>

definition strip_www :: "string \<Rightarrow> string" where
  "strip_www s = (if prefix ''www.'' s then drop 4 s else s)"

text \<open>The reply topic \<^verbatim>\<open>`mmn.jobs.result.${job.id}`\<close>, or what the template throws.\<close>

definition reply_topic :: "(int \<Rightarrow> string) \<Rightarrow> json option \<Rightarrow> js_error + string" where
  "reply_topic big jid =
     (case template big jid of Inl err \<Rightarrow> Inl err | Inr s \<Rightarrow> Inr (''mmn.jobs.result.'' @ s))"

text \<open>The fields of a worker object; job processing assigns none of them.\<close>

record module =
  m_name :: string
  m_version :: string
  m_connected :: bool

section \<open>The ping worker (modules/ping-module/src/index.js, class PingModule)\<close>

definition cleanTarget :: "string \<Rightarrow> string" where
  "cleanTarget target = trim (strip_meta (strip_path (strip_protocol target)))"

text \<open>How \<^verbatim>\<open>execPromise(command, {timeout: 10000})\<close> ends: with the outputs, or with an
  error that carries them (an empty output is falsy).\<close>

record exec_error =
  x_message :: string
  x_code :: "json option"
  x_stdout :: string
  x_stderr :: string

datatype exec_outcome = ExecOk string string | ExecFails exec_error

text \<open>What \<^verbatim>\<open>parsePingOutput\<close> returns.\<close>

record parsed =
  p_success :: bool
  p_rtt :: json
  p_packetLoss :: json
  p_packetsTransmitted :: json
  p_packetsReceived :: json
  p_message :: string

text \<open>The surroundings of the ping worker: \<^verbatim>\<open>process.platform\<close>, the shell (what running a
  command gives), the clock, the text scraping of \<^verbatim>\<open>parsePingOutput\<close>, which the
  worker's control flow does not depend on and which is taken as it comes, and how the
  engine prints an integer beyond \<open>2^53 - 1\<close>.\<close>

record ping_env =
  platform :: string
  exec :: "string \<Rightarrow> exec_outcome"
  parsePingOutput :: "string \<Rightarrow> string \<Rightarrow> string \<Rightarrow> parsed"
  ping_clock :: clock
  ping_print :: "int \<Rightarrow> string"

definition createPingResult ::
  "ping_env \<Rightarrow> string \<Rightarrow> bool \<Rightarrow> json \<Rightarrow> json \<Rightarrow> string \<Rightarrow> json \<Rightarrow> json \<Rightarrow> props" where
  "createPingResult e target success rtt packetLoss msg packetsTransmitted packetsReceived =
     [(''jobId'', JStr (''ping_'' @ dec (now (ping_clock e)) @ ''_'' @ rnd (ping_clock e))),
      (''type'', JStr ''ping''),
      (''target'', JStr target),
      (''timestamp'', JNum (int (now (ping_clock e)))),
      (''status'', JStr ''completed''),
      (''result'', JObj
        [(''rtt'', rtt),
         (''success'', JBool success),
         (''packetLoss'', packetLoss),
         (''packetsTransmitted'', packetsTransmitted),
         (''packetsReceived'', packetsReceived),
         (''message'', JStr msg),
         (''isRealMeasurement'', JBool True),
         (''metadata'', JObj
           [(''protocol'', JStr ''ICMP''),
            (''packets'', packetsTransmitted),
            (''platform'', JStr (platform e)),
            (''timestamp'', JStr (iso (ping_clock e)))])])]"

definition createErrorResult :: "ping_env \<Rightarrow> json \<Rightarrow> string \<Rightarrow> js_error + props" where
  "createErrorResult e job errorMessage =
     (case template (ping_print e) (lookup job ''target'') of
        Inl err \<Rightarrow> Inl err
      | Inr target \<Rightarrow>
          Inr (obj
            [(''jobId'', lookup job ''id''),
             (''type'', Some (JStr ''ping'')),
             (''target'', lookup job ''target''),
             (''timestamp'', Some (JNum (int (now (ping_clock e))))),
             (''status'', Some (JStr ''completed'')),
             (''result'', Some (JObj
               [(''rtt'', JNull),
                (''success'', JBool False),
                (''packetLoss'', JNum 100),
                (''packetsTransmitted'', JNum 0),
                (''packetsReceived'', JNum 0),
                (''error'', JStr errorMessage),
                (''message'', JStr (''Ping to '' @ target @ '' failed: '' @ errorMessage)),
                (''isRealMeasurement'', JBool True),
                (''metadata'', JObj
                  [(''protocol'', JStr ''ICMP''),
                   (''packets'', JNum 0),
                   (''platform'', JStr (platform e)),
                   (''timestamp'', JStr (iso (ping_clock e)))])]))]))"

text \<open>The shell command of \<^verbatim>\<open>executeRealPing\<close>.\<close>

definition ping_command :: "string \<Rightarrow> string \<Rightarrow> string" where
  "ping_command pf target =
     (if pf = ''win32'' then ''ping -n 4 -w 3000 '' @ cleanTarget target
      else ''ping -c 4 -W 3 '' @ cleanTarget target)"

text \<open>The \<^verbatim>\<open>catch\<close> block of \<^verbatim>\<open>executeRealPing\<close>.\<close>

definition ping_failure :: "ping_env \<Rightarrow> string \<Rightarrow> exec_error \<Rightarrow> props" where
  "ping_failure e ct err =
     (let errorOutput = toLowerCase (x_stderr err);
          stdout = toLowerCase (x_stdout err);
          failed = (\<lambda>msg. createPingResult e ct False JNull (JNum 100) msg (JNum 4) (JNum 0))
      in if x_stderr err \<noteq> [] \<and> (str_includes errorOutput ''unknown host''
              \<or> str_includes errorOutput ''could not find host''
              \<or> str_includes errorOutput ''name or service not known'')
         then failed ''Unknown host - DNS resolution failed''
         else if x_stderr err \<noteq> [] \<and> str_includes errorOutput ''network is unreachable''
         then failed ''Network unreachable''
         else if x_stderr err \<noteq> [] \<and> strict_eq (x_code err) (Some (JStr ''ETIMEDOUT''))
         then failed ''Ping timeout - no response received''
         else if x_stdout err \<noteq> [] \<and> (str_includes stdout ''unknown host''
              \<or> str_includes stdout ''could not find host'')
         then failed ''Unknown host - DNS resolution failed''
         else failed (''Ping failed: '' @ x_message err))"

text \<open>\<^verbatim>\<open>executeRealPing(target)\<close>. \<^verbatim>\<open>cleanTarget\<close> stands before the \<^verbatim>\<open>try\<close>: on a target that is
  no string its \<^verbatim>\<open>target.replace\<close> throws out of the function.\<close>

definition executeRealPing :: "ping_env \<Rightarrow> json option \<Rightarrow> js_error + props" where
  "executeRealPing e target =
     (case target of
        Some (JStr t) \<Rightarrow>
          (case exec e (ping_command (platform e) t) of
             ExecOk out err \<Rightarrow>
               (let parsedResult = parsePingOutput e out err (platform e)
                in Inr (createPingResult e (cleanTarget t) (p_success parsedResult)
                     (p_rtt parsedResult) (p_packetLoss parsedResult) (p_message parsedResult)
                     (p_packetsTransmitted parsedResult) (p_packetsReceived parsedResult)))
           | ExecFails error \<Rightarrow> Inr (ping_failure e (cleanTarget t) error))
      | None \<Rightarrow> Inl (TypeError ''Cannot read properties of undefined (reading 'replace')'')
      | Some JNull \<Rightarrow> Inl (TypeError ''Cannot read properties of null (reading 'replace')'')
      | Some _ \<Rightarrow> Inl (TypeError ''target.replace is not a function''))"

text \<open>The \<^verbatim>\<open>catch\<close> block of \<^verbatim>\<open>processPingJob\<close>: it logs \<^verbatim>\<open>`... ${job.target}`\<close>, builds the error
  result, builds the subject \<^verbatim>\<open>`mmn.jobs.result.${job.id}`\<close> and publishes. Whatever one of
  these throws leaves the function.\<close>

definition processPingJob_catch ::
  "ping_env \<Rightarrow> bus \<Rightarrow> json \<Rightarrow> js_error \<Rightarrow> effect list \<times> js_error option" where
  "processPingJob_catch e b2 job error =
     (case template (ping_print e) (lookup job ''target'') of
        Inl err \<Rightarrow> ([], Some err)
      | Inr logged \<Rightarrow>
          (case createErrorResult e job (''Ping failed: '' @ message error) of
             Inl err \<Rightarrow> ([], Some err)
           | Inr errorResult \<Rightarrow>
               (case reply_topic (ping_print e) (lookup job ''id'') of
                  Inl err \<Rightarrow> ([], Some err)
                | Inr topic \<Rightarrow>
                    (case b2 of
                       Accepts \<Rightarrow> ([Publish topic (JObj errorResult)], None)
                     | Rejects err \<Rightarrow> ([], Some err)))))"

text \<open>\<^verbatim>\<open>processPingJob(job)\<close>: what was published, and the exception that leaves it, if any.
  \<open>b1\<close> is how the publish in the \<^verbatim>\<open>try\<close> block ends, \<open>b2\<close> the one in the \<^verbatim>\<open>catch\<close> block.
  In the \<^verbatim>\<open>try\<close> block the subject template is evaluated before the publish, and the log
  line \<^verbatim>\<open>`... ${job.target} ...`\<close> after it.\<close>

definition processPingJob ::
  "ping_env \<Rightarrow> bus \<Rightarrow> bus \<Rightarrow> json \<Rightarrow> effect list \<times> js_error option" where
  "processPingJob e b1 b2 job =
     (case executeRealPing e (lookup job ''target'') of
        Inl error \<Rightarrow> processPingJob_catch e b2 job error
      | Inr pingResult \<Rightarrow>
          (case reply_topic (ping_print e) (lookup job ''id'') of
             Inl error \<Rightarrow> processPingJob_catch e b2 job error
           | Inr topic \<Rightarrow>
               (case b1 of
                  Rejects error \<Rightarrow> processPingJob_catch e b2 job error
                | Accepts \<Rightarrow>
                    (let published = Publish topic (JObj (set_prop pingResult ''jobId'' (lookup job ''id'')))
                     in case template (ping_print e) (lookup job ''target'') of
                          Inr logged \<Rightarrow> ([published], None)
                        | Inl error \<Rightarrow>
                            (published # fst (processPingJob_catch e b2 job error),
                             snd (processPingJob_catch e b2 job error))))))"

text \<open>The body of the loop of \<^verbatim>\<open>startJobProcessing\<close> for one message: the worker
  afterwards and what it published. Reading \<^verbatim>\<open>job.type\<close> of \<^verbatim>\<open>null\<close> throws, and so may the log
  line \<^verbatim>\<open>`... ${job.target}`\<close> before \<^verbatim>\<open>processPingJob\<close>; the loop's \<^verbatim>\<open>catch\<close> logs whatever
  was thrown.\<close>

definition ping_on_message ::
  "ping_env \<Rightarrow> bus \<Rightarrow> bus \<Rightarrow> module \<Rightarrow> payload \<Rightarrow> module \<times> effect list" where
  "ping_on_message e b1 b2 m p =
     (case p of
        Malformed \<Rightarrow> (m, [])
      | Parsed job \<Rightarrow>
          if job = JNull then (m, [])
          else if strict_eq (lookup job ''type'') (Some (JStr ''ping''))
          then (case template (ping_print e) (lookup job ''target'') of
                  Inl err \<Rightarrow> (m, [])
                | Inr logged \<Rightarrow> (m, fst (processPingJob e b1 b2 job)))
          else (m, []))"

section \<open>The DNS worker (modules/ping-module/src/index.js, class DNSModule)\<close>

definition dns_cleanTarget :: "string \<Rightarrow> string" where
  "dns_cleanTarget target = trim (strip_www (strip_path (strip_protocol target)))"

text \<open>\<^verbatim>\<open>domainRegex\<close>: two or more labels separated by dots, each of 1 to 63 letters, digits
  and hyphens, with no hyphen first or last.\<close>

definition is_alnum :: "char \<Rightarrow> bool" where
  "is_alnum c =
     (let n = (of_char c :: nat)
      in (97 \<le> n \<and> n \<le> 122) \<or> (65 \<le> n \<and> n \<le> 90) \<or> (48 \<le> n \<and> n \<le> 57))"

definition valid_label :: "string \<Rightarrow> bool" where
  "valid_label l =
     (l \<noteq> [] \<and> length l \<le> 63 \<and> is_alnum (hd l) \<and> is_alnum (last l)
      \<and> list_all (\<lambda>c. is_alnum c \<or> c = CHR ''-'') l)"

fun split_dots :: "string \<Rightarrow> string list" where
  "split_dots [] = [[]]"
| "split_dots (c # cs) =
     (if c = CHR ''.'' then [] # split_dots cs
      else (case split_dots cs of l # ls \<Rightarrow> (c # l) # ls | [] \<Rightarrow> [[c]]))"

definition domainRegex :: "string \<Rightarrow> bool" where
  "domainRegex s = (2 \<le> length (split_dots s) \<and> list_all valid_label (split_dots s))"

definition isValidDomain :: "json option \<Rightarrow> bool" where
  "isValidDomain domain =
     (case domain of
        Some (JStr d) \<Rightarrow>
          d \<noteq> [] \<and> 1 \<le> length (dns_cleanTarget d) \<and> length (dns_cleanTarget d) \<le> 253
          \<and> domainRegex (dns_cleanTarget d)
      | _ \<Rightarrow> False)"

text \<open>The surroundings of the DNS worker: the three resolver calls (each returns
  addresses or throws; \<^verbatim>\<open>resolveAny\<close> returns records of a type and an address), the clock
  and the time the resolution took.\<close>

record dns_env =
  resolve4 :: "string \<Rightarrow> js_error + string list"
  resolve6 :: "string \<Rightarrow> js_error + string list"
  resolveAny :: "string \<Rightarrow> js_error + (string \<times> string) list"
  dns_clock :: clock
  resolveTime :: nat
  dns_print :: "int \<Rightarrow> string"

definition createDNSResult ::
  "dns_env \<Rightarrow> json option \<Rightarrow> bool \<Rightarrow> string list \<Rightarrow> json \<Rightarrow> string \<Rightarrow> string \<Rightarrow> json \<Rightarrow> props" where
  "createDNSResult e target success addresses rtime msg recordType errorCode =
     obj
       [(''jobId'', Some (JStr (''dns_'' @ dec (now (dns_clock e)) @ ''_'' @ rnd (dns_clock e)))),
        (''type'', Some (JStr ''dns'')),
        (''target'', target),
        (''timestamp'', Some (JNum (int (now (dns_clock e))))),
        (''status'', Some (JStr ''completed'')),
        (''result'', Some (JObj
          [(''addresses'', JArr (map JStr addresses)),
           (''resolveTime'', rtime),
           (''success'', JBool success),
           (''addressCount'', JNum (int (length addresses))),
           (''recordType'', JStr recordType),
           (''errorCode'', errorCode),
           (''message'', JStr msg),
           (''isRealMeasurement'', JBool True),
           (''metadata'', JObj
             [(''dnsServer'', JStr ''system-default''),
              (''protocol'', JStr ''UDP''),
              (''port'', JNum 53),
              (''timestamp'', JStr (iso (dns_clock e)))])]))]"

definition dns_createErrorResult :: "dns_env \<Rightarrow> json \<Rightarrow> string \<Rightarrow> js_error + props" where
  "dns_createErrorResult e job errorMessage =
     (case template (dns_print e) (lookup job ''target'') of
        Inl err \<Rightarrow> Inl err
      | Inr target \<Rightarrow>
          Inr (obj
            [(''jobId'', lookup job ''id''),
             (''type'', Some (JStr ''dns'')),
             (''target'', lookup job ''target''),
             (''timestamp'', Some (JNum (int (now (dns_clock e))))),
             (''status'', Some (JStr ''completed'')),
             (''result'', Some (JObj
               [(''addresses'', JArr []),
                (''resolveTime'', JNull),
                (''success'', JBool False),
                (''addressCount'', JNum 0),
                (''recordType'', JStr ''A''),
                (''errorCode'', JStr ''PROCESSING_ERROR''),
                (''error'', JStr errorMessage),
                (''message'', JStr (''DNS lookup for '' @ target @ '' failed: '' @ errorMessage)),
                (''isRealMeasurement'', JBool True),
                (''metadata'', JObj
                  [(''dnsServer'', JStr ''system-default''),
                   (''protocol'', JStr ''UDP''),
                   (''port'', JNum 53),
                   (''timestamp'', JStr (iso (dns_clock e)))])]))]))"

text \<open>The fallback chain of \<^verbatim>\<open>executeRealDNSLookup\<close>: A records, then AAAA records, then
  the A and AAAA records of an ANY query; when all three throw, the first error is thrown.\<close>

definition resolve_chain :: "dns_env \<Rightarrow> string \<Rightarrow> js_error + (string list \<times> string)" where
  "resolve_chain e ct =
     (case resolve4 e ct of
        Inr addresses \<Rightarrow> Inr (addresses, ''A'')
      | Inl error \<Rightarrow>
          (case resolve6 e ct of
             Inr addresses \<Rightarrow> Inr (addresses, ''AAAA'')
           | Inl error2 \<Rightarrow>
               (case resolveAny e ct of
                  Inr anyRecords \<Rightarrow>
                    Inr (map snd (filter (\<lambda>r. fst r = ''A'' \<or> fst r = ''AAAA'') anyRecords), ''ANY'')
                | Inl error3 \<Rightarrow> Inl error)))"

text \<open>The outer \<^verbatim>\<open>catch\<close> block of \<^verbatim>\<open>executeRealDNSLookup\<close>.\<close>

definition dns_failure :: "dns_env \<Rightarrow> string \<Rightarrow> js_error \<Rightarrow> props" where
  "dns_failure e target error =
     (let failed = (\<lambda>errorMessage errorCode.
            createDNSResult e (Some (JStr (dns_cleanTarget target))) False [] JNull
              errorMessage ''A'' (JStr errorCode))
      in if code error = Some ''ENOTFOUND''
         then failed (''Domain not found: '' @ dns_cleanTarget target) ''DOMAIN_NOT_FOUND''
         else if code error = Some ''ETIMEOUT''
         then failed ''DNS resolution timeout - no response from DNS servers'' ''TIMEOUT''
         else if code error = Some ''ECONNREFUSED''
         then failed ''DNS server refused connection'' ''CONNECTION_REFUSED''
         else if code error = Some ''ESERVFAIL''
         then failed ''DNS server failure'' ''SERVER_FAILURE''
         else if code error = Some ''ENODATA''
         then failed ''Domain exists but has no DNS records'' ''NO_DATA''
         else failed (''DNS error: '' @ message error)
                (case code error of None \<Rightarrow> ''UNKNOWN'' | Some cd \<Rightarrow> if cd = [] then ''UNKNOWN'' else cd))"

definition executeRealDNSLookup :: "dns_env \<Rightarrow> json option \<Rightarrow> props" where
  "executeRealDNSLookup e target =
     (if \<not> isValidDomain target
      then createDNSResult e target False [] JNull ''Invalid domain format'' ''A'' JNull
      else case target of
             Some (JStr t) \<Rightarrow>
               (case resolve_chain e (dns_cleanTarget t) of
                  Inr (addresses, recordType) \<Rightarrow>
                    createDNSResult e target True addresses (JNum (int (resolveTime e)))
                      (''Resolved '' @ dns_cleanTarget t @ '' to '' @ dec (length addresses)
                        @ '' IP addresses ('' @ recordType @ '') in '' @ dec (resolveTime e) @ ''ms'')
                      recordType JNull
                | Inl error \<Rightarrow> dns_failure e t error)
           | _ \<Rightarrow> createDNSResult e target False [] JNull ''Invalid domain format'' ''A'' JNull)"

definition processDNSJob_catch ::
  "dns_env \<Rightarrow> bus \<Rightarrow> json \<Rightarrow> js_error \<Rightarrow> effect list \<times> js_error option" where
  "processDNSJob_catch e b2 job error =
     (case template (dns_print e) (lookup job ''target'') of
        Inl err \<Rightarrow> ([], Some err)
      | Inr logged \<Rightarrow>
          (case dns_createErrorResult e job (''DNS lookup failed: '' @ message error) of
             Inl err \<Rightarrow> ([], Some err)
           | Inr errorResult \<Rightarrow>
               (case reply_topic (dns_print e) (lookup job ''id'') of
                  Inl err \<Rightarrow> ([], Some err)
                | Inr topic \<Rightarrow>
                    (case b2 of
                       Accepts \<Rightarrow> ([Publish topic (JObj errorResult)], None)
                     | Rejects err \<Rightarrow> ([], Some err)))))"

definition processDNSJob ::
  "dns_env \<Rightarrow> bus \<Rightarrow> bus \<Rightarrow> json \<Rightarrow> effect list \<times> js_error option" where
  "processDNSJob e b1 b2 job =
     (let dnsResult = executeRealDNSLookup e (lookup job ''target'')
      in case reply_topic (dns_print e) (lookup job ''id'') of
           Inl error \<Rightarrow> processDNSJob_catch e b2 job error
         | Inr topic \<Rightarrow>
             (case b1 of
                Rejects error \<Rightarrow> processDNSJob_catch e b2 job error
              | Accepts \<Rightarrow>
                  (let published = Publish topic (JObj (set_prop dnsResult ''jobId'' (lookup job ''id'')))
                   in case template (dns_print e) (lookup job ''target'') of
                        Inr logged \<Rightarrow> ([published], None)
                      | Inl error \<Rightarrow>
                          (published # fst (processDNSJob_catch e b2 job error),
                           snd (processDNSJob_catch e b2 job error)))))"

definition dns_on_message ::
  "dns_env \<Rightarrow> bus \<Rightarrow> bus \<Rightarrow> module \<Rightarrow> payload \<Rightarrow> module \<times> effect list" where
  "dns_on_message e b1 b2 m p =
     (case p of
        Malformed \<Rightarrow> (m, [])
      | Parsed job \<Rightarrow>
          if job = JNull then (m, [])
          else if strict_eq (lookup job ''type'') (Some (JStr ''dns''))
          then (case template (dns_print e) (lookup job ''target'') of
                  Inl err \<Rightarrow> (m, [])
                | Inr logged \<Rightarrow> (m, fst (processDNSJob e b1 b2 job)))
          else (m, []))"

section \<open>Observations and sample data used in the statements\<close>

text \<open>\<^verbatim>\<open>v.k1.k2...\<close>, \<open>None\<close> when a step is \<^verbatim>\<open>undefined\<close>.\<close>

fun path :: "json \<Rightarrow> string list \<Rightarrow> json option" where
  "path v [] = Some v"
| "path v (k # ks) = (case lookup v k of None \<Rightarrow> None | Some w \<Rightarrow> path w ks)"

definition sample_clock :: clock where
  "sample_clock = \<lparr>now = 1700000000000, iso = ''2023-11-14T22:13:20.000Z'', rnd = ''k3j9x0q2a''\<rparr>"

definition later_clock :: clock where
  "later_clock = \<lparr>now = 1700000000001, iso = ''2023-11-14T22:13:20.001Z'', rnd = ''k3j9x0q2a''\<rparr>"

definition sample_result :: json where
  "sample_result =
     JObj [(''jobId'', JStr ''job_1700000000000_abc''), (''type'', JStr ''ping''),
           (''result'', JObj [(''success'', JBool True)])]"

definition sample_api :: api where
  "sample_api = \<lparr>natsConnection = True, jobResults = [], storage = Content [],
      clients = [(1, True), (2, False), (3, True)]\<rparr>"

definition bogus_request :: json where
  "bogus_request = JObj [(''type'', JStr ''bogus''), (''target'', JStr [])]"

definition bus_closed :: js_error where
  "bus_closed = \<lparr>message = ''CONNECTION_CLOSED'', code = Some ''CONNECTION_CLOSED''\<rparr>"

definition ping_announcement :: announcement where
  "ping_announcement =
     \<lparr>a_name = ''ping-module'', a_version = ''1.0.0'', a_type = ''ping'',
      a_capabilities = [''real_icmp_ping'', ''packet_loss_calculation''],
      a_timestamp = 1700000000000,
      a_rfcCompliance = [''RFC2330'', ''RFC792'', ''RFC2681'', ''RFC7680'']\<rparr>"

text \<open>Whether the ping strategy fails on a target: the target is no string (\<^verbatim>\<open>cleanTarget\<close>
  throws), or the shell command ends with an error.\<close>

definition strategy_fails :: "ping_env \<Rightarrow> json option \<Rightarrow> bool" where
  "strategy_fails e target =
     (case target of
        Some (JStr t) \<Rightarrow>
          (case exec e (ping_command (platform e) t) of
             ExecFails error \<Rightarrow> True
           | ExecOk out err \<Rightarrow> False)
      | _ \<Rightarrow> True)"

definition sample_module :: module where
  "sample_module = \<lparr>m_name = ''ping-module'', m_version = ''1.0.0'', m_connected = True\<rparr>"

definition sample_ping_env :: ping_env where
  "sample_ping_env =
     \<lparr>platform = ''linux'',
      exec = (\<lambda>command. ExecFails
        \<lparr>x_message = ''Command failed: ping -c 4 -W 3 10.255.255.1'', x_code = Some (JNum 1),
         x_stdout = ''4 packets transmitted, 0 received, 100% packet loss'', x_stderr = []\<rparr>),
      parsePingOutput = (\<lambda>out err pf.
        \<lparr>p_success = False, p_rtt = JNull, p_packetLoss = JNum 100, p_packetsTransmitted = JNum 4,
         p_packetsReceived = JNum 0, p_message = ''No response from host - 100% packet loss''\<rparr>),
      ping_clock = sample_clock, ping_print = dec_int\<rparr>"

definition sample_job :: json where
  "sample_job =
     JObj [(''id'', JStr ''job_1''), (''type'', JStr ''ping''), (''target'', JStr ''10.255.255.1''),
           (''timestamp'', JNum 1700000000000), (''status'', JStr ''submitted'')]"

definition sample_dns_job :: json where
  "sample_dns_job =
     JObj [(''id'', JStr ''job_2''), (''type'', JStr ''dns''), (''target'', JStr ''nonexistent.invalid''),
           (''timestamp'', JNum 1700000000000), (''status'', JStr ''submitted'')]"

definition not_found :: js_error where
  "not_found = \<lparr>message = ''queryA ENOTFOUND nonexistent.invalid'', code = Some ''ENOTFOUND''\<rparr>"

definition sample_dns_env :: dns_env where
  "sample_dns_env =
     \<lparr>resolve4 = (\<lambda>d. Inl not_found), resolve6 = (\<lambda>d. Inl not_found),
      resolveAny = (\<lambda>d. Inl not_found), dns_clock = sample_clock, resolveTime = 12,
      dns_print = dec_int\<rparr>"

definition unprintable_result :: json where
  "unprintable_result =
     JObj [(''jobId'', JObj [(''toString'', JNum 1)]), (''type'', JStr ''ping''),
           (''result'', JObj [(''success'', JBool True)])]"

definition unprintable_job :: json where
  "unprintable_job =
     JObj [(''id'', JStr ''job_3''), (''type'', JStr ''ping''),
           (''target'', JObj [(''toString'', JNum 1)])]"

definition unprintable_dns_job :: json where
  "unprintable_dns_job =
     JObj [(''id'', JObj [(''toString'', JNum 1)]), (''type'', JStr ''dns''),
           (''target'', JStr ''nonexistent.invalid'')]"

section \<open>Properties of the result store\<close>

lemma saveMeasurement_written:
  "saveMeasurement c WriteOk f r = (logs_jobId r, Content (take 1000 (measurement c r # loadAll f)))"
  by (simp add: saveMeasurement_def writeFile_def)

lemma saveMeasurement_refused: "saveMeasurement c WriteRefused f r = (False, f)"
  by (simp add: saveMeasurement_def writeFile_def)

lemma saveMeasurement_torn: "saveMeasurement c WriteTorn f r = (False, Unreadable)"
  by (simp add: saveMeasurement_def writeFile_def)

lemmas saveMeasurement_outcomes =
  saveMeasurement_written saveMeasurement_refused saveMeasurement_torn

lemma loadAll_simps [simp]: "loadAll (Content d) = d" "loadAll Unreadable = []"
  by (simp_all add: loadAll_def)

lemma save_keeps_cap:
  "length (loadAll f) \<le> 1000 \<Longrightarrow> length (loadAll (snd (saveMeasurement c w f r))) \<le> 1000"
  by (cases w) (simp_all add: saveMeasurement_outcomes)

lemma appends_keep_cap:
  "length (loadAll f) \<le> 1000 \<Longrightarrow> length (loadAll (appends f ops)) \<le> 1000"
proof (induction ops arbitrary: f)
  case Nil
  then show ?case by simp
next
  case (Cons op ops)
  obtain c w r where op: "op = (c, w, r)" by (cases op)
  from Cons.prems have "length (loadAll (snd (saveMeasurement c w f r))) \<le> 1000"
    by (rule save_keeps_cap)
  then show ?case unfolding op by (simp add: Cons.IH)
qed

lemma written_head:
  "loadAll (snd (saveMeasurement c WriteOk f r)) = measurement c r # take 999 (loadAll f)"
  by (simp add: saveMeasurement_written)

text \<open>
  Claim C1. Whatever appends are run, with whatever write outcomes, a store that holds
  at most 1000 records holds at most 1000 records afterwards; in particular the store
  that started empty never exceeds the cap. An append whose write succeeds puts the new
  record first, followed by the 999 newest records of the old sequence in their order;
  the records it drops are the old sequence from position 999 on, its oldest end.
\<close>

theorem store_cap_newest_first:
  "(length (loadAll f) \<le> 1000 \<longrightarrow> length (loadAll (appends f ops)) \<le> 1000)
   \<and> length (loadAll (appends (Content []) ops)) \<le> 1000
   \<and> loadAll (snd (saveMeasurement c WriteOk f r)) = measurement c r # take 999 (loadAll f)
   \<and> loadAll f = tl (loadAll (snd (saveMeasurement c WriteOk f r))) @ drop 999 (loadAll f)"
  using appends_keep_cap [of f ops] appends_keep_cap [of "Content []" ops]
  by (simp add: written_head)

theorem store_cap_newest_first_witness:
  "length (loadAll (Content (replicate 1000 sample_result))) \<le> 1000
   \<and> length (loadAll (appends (Content (replicate 1000 sample_result))
         [(sample_clock, WriteOk, sample_result)])) \<le> 1000
   \<and> loadAll (snd (saveMeasurement sample_clock WriteOk (Content (replicate 1000 sample_result)) sample_result))
       = measurement sample_clock sample_result # replicate 999 sample_result
   \<and> drop 999 (loadAll (Content (replicate 1000 sample_result))) = [sample_result]"
  using store_cap_newest_first [of "Content (replicate 1000 sample_result)"
      "[(sample_clock, WriteOk, sample_result)]" sample_clock sample_result]
  by simp

lemma map_of_spread3:
  "map_of (spread ps [(k1, v1), (k2, v2), (k3, v3)]) k =
     (if k = k3 then Some v3 else if k = k2 then Some v2 else if k = k1 then Some v1 else map_of ps k)"
  by (simp add: spread_def update_conv')

lemma lookup_measurement:
  "lookup (measurement c r) k =
     (if k = ''_id'' then Some (JStr (storageId c))
      else if k = ''_savedAt'' then Some (JStr (iso c))
      else if k = ''_persisted'' then Some (JBool True)
      else map_of (own_props r) k)"
  unfolding measurement_def lookup.simps map_of_spread3 by simp

lemma dec_not_Nil: "dec n \<noteq> []"
  by (subst dec.simps) simp

lemma dec_digits: "c \<in> set (dec n) \<Longrightarrow> 48 \<le> (of_char c :: nat) \<and> (of_char c :: nat) \<le> 57"
proof (induction n rule: dec.induct)
  case (1 n)
  show ?case
  proof (cases "n < 10")
    case True
    with "1.prems" show ?thesis by (subst (asm) dec.simps) auto
  next
    case False
    from "1.prems" have "c \<in> set (dec (n div 10)) \<or> c = char_of (48 + n mod 10)"
      using False by (subst (asm) dec.simps) auto
    then show ?thesis
    proof
      assume "c \<in> set (dec (n div 10))"
      with "1.IH" False show ?thesis by simp
    next
      assume c: "c = char_of (48 + n mod 10)"
      have "n mod 10 < 10" by simp
      then have "(48 + n mod 10) mod 256 = 48 + n mod 10" by simp
      with c show ?thesis by simp
    qed
  qed
qed

lemma underscore_not_in_dec: "CHR ''_'' \<notin> set (dec n)"
  using dec_digits [of "CHR ''_''" n] by auto

lemma digit_inj: "a < 10 \<Longrightarrow> b < 10 \<Longrightarrow> char_of (48 + a :: nat) = char_of (48 + b :: nat) \<Longrightarrow> a = b"
proof -
  assume a: "a < 10" and b: "b < 10" and e: "char_of (48 + a) = char_of (48 + b)"
  from e have "(of_char (char_of (48 + a)) :: nat) = of_char (char_of (48 + b))" by simp
  then have "(48 + a) mod 256 = (48 + b) mod 256" by simp
  with a b show ?thesis by simp
qed

lemma dec_length_one: "length (dec n) = 1 \<longleftrightarrow> n < 10"
proof (cases "n < 10")
  case True
  then show ?thesis by (subst dec.simps) simp
next
  case False
  have "length (dec n) = length (dec (n div 10)) + 1"
    using False by (subst dec.simps) simp
  moreover have "length (dec (n div 10)) \<noteq> 0" using dec_not_Nil by simp
  ultimately show ?thesis using False by simp
qed

lemma dec_inj: "dec n = dec m \<Longrightarrow> n = m"
proof (induction n arbitrary: m rule: dec.induct)
  case (1 n)
  show ?case
  proof (cases "n < 10")
    case True
    then have "length (dec n) = 1" using dec_length_one [of n] by blast
    with "1.prems" have m: "m < 10" using dec_length_one [of m] by metis
    from "1.prems" True m have "char_of (48 + n) = char_of (48 + m)"
      by (subst (asm) dec.simps, subst (asm) (2) dec.simps) simp
    with True m show ?thesis by (intro digit_inj)
  next
    case False
    then have "length (dec n) \<noteq> 1" using dec_length_one [of n] by blast
    with "1.prems" have m: "\<not> m < 10" using dec_length_one [of m] by metis
    have "dec n = dec (n div 10) @ [char_of (48 + n mod 10)]"
      using False by (subst dec.simps) simp
    moreover have "dec m = dec (m div 10) @ [char_of (48 + m mod 10)]"
      using m by (subst dec.simps) simp
    ultimately have q: "dec (n div 10) = dec (m div 10)"
      and d: "char_of (48 + n mod 10) = char_of (48 + m mod 10)"
      using "1.prems" by simp_all
    from "1.IH" [OF False q] have "n div 10 = m div 10" .
    moreover from d have "n mod 10 = m mod 10" by (intro digit_inj) simp_all
    ultimately show ?thesis by (metis div_mult_mod_eq)
  qed
qed

lemma split_at_separator:
  "x \<notin> set xs \<Longrightarrow> x \<notin> set xs' \<Longrightarrow> xs @ x # ys = xs' @ x # ys' \<Longrightarrow> xs = xs' \<and> ys = ys'"
proof (induction xs arbitrary: xs')
  case Nil
  show ?case
  proof (cases xs')
    case Nil
    with Nil.prems show ?thesis by simp
  next
    case (Cons a zs)
    with Nil.prems show ?thesis by simp
  qed
next
  case (Cons a xs)
  show ?case
  proof (cases xs')
    case Nil
    with Cons.prems show ?thesis by simp
  next
    case (Cons b zs)
    with Cons.prems have "x \<notin> set xs" "x \<notin> set zs" "xs @ x # ys = zs @ x # ys'" "a = b"
      by simp_all
    with Cons.IH [of zs] Cons show ?thesis by simp
  qed
qed

lemma storageId_inj: "storageId c = storageId c' \<longleftrightarrow> now c = now c' \<and> rnd c = rnd c'"
proof
  assume "storageId c = storageId c'"
  then have e: "dec (now c) @ CHR ''_'' # rnd c = dec (now c') @ CHR ''_'' # rnd c'"
    unfolding storageId_def by simp
  have "dec (now c) = dec (now c') \<and> rnd c = rnd c'"
    by (rule split_at_separator
        [OF underscore_not_in_dec [of "now c"] underscore_not_in_dec [of "now c'"] e])
  then have d: "dec (now c) = dec (now c')" and r: "rnd c = rnd c'"
    by blast+
  from d have "now c = now c'" by (rule dec_inj)
  with r show "now c = now c' \<and> rnd c = rnd c'" by blast
next
  assume "now c = now c' \<and> rnd c = rnd c'"
  then show "storageId c = storageId c'" unfolding storageId_def by simp
qed

lemma two_appends:
  "loadAll (appends f [(c1, WriteOk, r), (c2, WriteOk, r)])
     = take 1000 (measurement c2 r # measurement c1 r # loadAll f)"
  by (simp add: saveMeasurement_written)

lemma save_flag: "fst (saveMeasurement c w f r) \<longleftrightarrow> w = WriteOk \<and> logs_jobId r"
  by (cases w) (simp_all add: saveMeasurement_outcomes)

lemma save_failed_adds_nothing:
  "w \<noteq> WriteOk \<Longrightarrow>
     \<not> fst (saveMeasurement c w f r)
     \<and> (loadAll (snd (saveMeasurement c w f r)) = loadAll f
        \<or> loadAll (snd (saveMeasurement c w f r)) = [])"
  by (cases w) (simp_all add: saveMeasurement_outcomes)

text \<open>
  Claim C6, as the code has it. An append whose write succeeds stores one new record in
  front of the old ones, whatever job ids they carry. The record's \<^verbatim>\<open>_id\<close> is the storage id
  made from the clock reading and the random suffix of this call, not from the payload;
  its \<^verbatim>\<open>jobId\<close> is the payload's. Two calls get different storage ids whenever the clock
  reading or the random suffix differs. Appending one payload twice stores two records.
  For a result whose job id can be converted to a string the call returns true exactly
  when the write succeeds. Whenever the write fails the call returns false, and the stored
  sequence afterwards is the old one or empty: no record was added.
\<close>

theorem append_no_dedup:
  "snd (saveMeasurement c WriteOk f r) = Content (take 1000 (measurement c r # loadAll f))
   \<and> lookup (measurement c r) ''_id'' = Some (JStr (storageId c))
   \<and> lookup (measurement c (JObj ps)) ''jobId'' = map_of ps ''jobId''
   \<and> (storageId c = storageId c' \<longleftrightarrow> now c = now c' \<and> rnd c = rnd c')
   \<and> loadAll (appends f [(c, WriteOk, r), (c', WriteOk, r)])
        = take 1000 (measurement c' r # measurement c r # loadAll f)
   \<and> (logs_jobId r \<longrightarrow> (fst (saveMeasurement c w f r) \<longleftrightarrow> w = WriteOk))
   \<and> (w \<noteq> WriteOk \<longrightarrow>
        \<not> fst (saveMeasurement c w f r)
        \<and> (loadAll (snd (saveMeasurement c w f r)) = loadAll f
           \<or> loadAll (snd (saveMeasurement c w f r)) = []))"
proof -
  have "lookup (measurement c (JObj ps)) ''jobId'' = map_of ps ''jobId''"
    by (simp add: lookup_measurement)
  moreover have "lookup (measurement c r) ''_id'' = Some (JStr (storageId c))"
    by (simp add: lookup_measurement)
  moreover have "snd (saveMeasurement c WriteOk f r) = Content (take 1000 (measurement c r # loadAll f))"
    by (simp add: saveMeasurement_written)
  ultimately show ?thesis
    using storageId_inj [of c c'] two_appends [of f c r c']
      save_flag [of c w f r] save_failed_adds_nothing [of w c f r]
    by blast
qed

theorem append_no_dedup_witness:
  "loadAll (appends (Content []) [(sample_clock, WriteOk, sample_result), (later_clock, WriteOk, sample_result)])
     = [measurement later_clock sample_result, measurement sample_clock sample_result]
   \<and> lookup (measurement later_clock sample_result) ''jobId'' = lookup (measurement sample_clock sample_result) ''jobId''
   \<and> storageId sample_clock \<noteq> storageId later_clock
   \<and> logs_jobId sample_result
   \<and> fst (saveMeasurement sample_clock WriteOk (Content []) sample_result)
   \<and> WriteTorn \<noteq> WriteOk
   \<and> \<not> fst (saveMeasurement sample_clock WriteTorn (Content [sample_result]) sample_result)
   \<and> loadAll (snd (saveMeasurement sample_clock WriteTorn (Content [sample_result]) sample_result)) = []
   \<and> saveMeasurement sample_clock WriteRefused (Content [sample_result]) sample_result
       = (False, Content [sample_result])"
proof -
  have a: "now sample_clock \<noteq> now later_clock"
    by (simp add: sample_clock_def later_clock_def)
  have l: "logs_jobId sample_result"
    by (simp add: logs_jobId_def printable_def sample_result_def)
  note t = append_no_dedup [of sample_clock "Content []" sample_result "[]" later_clock WriteOk]
  note u = append_no_dedup [of sample_clock "Content [sample_result]" sample_result "[]" later_clock WriteTorn]
  from t have "loadAll (appends (Content []) [(sample_clock, WriteOk, sample_result), (later_clock, WriteOk, sample_result)])
     = take 1000 (measurement later_clock sample_result # measurement sample_clock sample_result # loadAll (Content []))"
    by blast
  then have "loadAll (appends (Content []) [(sample_clock, WriteOk, sample_result), (later_clock, WriteOk, sample_result)])
     = [measurement later_clock sample_result, measurement sample_clock sample_result]"
    by (simp add: loadAll_def)
  moreover from t a have "storageId sample_clock \<noteq> storageId later_clock" by blast
  moreover have "lookup (measurement later_clock sample_result) ''jobId'' = lookup (measurement sample_clock sample_result) ''jobId''"
    by (simp add: lookup_measurement sample_result_def)
  moreover from t l have "fst (saveMeasurement sample_clock WriteOk (Content []) sample_result)"
    by blast
  moreover from u have "\<not> fst (saveMeasurement sample_clock WriteTorn (Content [sample_result]) sample_result)"
    by blast
  moreover have "loadAll (snd (saveMeasurement sample_clock WriteTorn (Content [sample_result]) sample_result)) = []"
    by (simp add: saveMeasurement_torn)
  moreover have "saveMeasurement sample_clock WriteRefused (Content [sample_result]) sample_result
       = (False, Content [sample_result])"
    by (simp add: saveMeasurement_refused)
  ultimately show ?thesis using l by blast
qed

text \<open>
  Claim C6 as stated fails in two ways. For a result whose job id cannot be converted to
  a string (here the object \<^verbatim>\<open>{"toString": 1}\<close>), the log line after the write throws: the
  record has been written and the call returns false. And two appends that read the same
  clock value and draw the same random suffix store two records with the same storage id.
\<close>

theorem append_flag_and_id_counterexample:
  "saveMeasurement sample_clock WriteOk (Content []) unprintable_result
     = (False, Content [measurement sample_clock unprintable_result])
   \<and> loadAll (appends (Content [])
        [(sample_clock, WriteOk, sample_result), (sample_clock, WriteOk, sample_result)])
     = [measurement sample_clock sample_result, measurement sample_clock sample_result]"
  by (simp add: saveMeasurement_written logs_jobId_def printable_def unprintable_result_def)

lemma slice0_length: "0 \<le> l \<Longrightarrow> int (length (slice0 xs l)) \<le> l"
  by (simp add: slice0_def Let_def)

lemma slice0_prefix: "prefix (slice0 xs l) xs"
  by (simp add: slice0_def Let_def take_is_prefix)

lemma slice0_Nil [simp]: "slice0 [] l = []"
  by (simp add: slice0_def Let_def)

lemma getRecent_prefix: "prefix (getRecent f l) (loadAll f)"
  by (simp add: getRecent_def slice0_prefix)

lemma getByType_subseq: "subseq (getByType f ty l) (loadAll f)"
proof -
  have "subseq (getByType f ty l) (filter (\<lambda>item. strict_eq (lookup item ''type'') ty) (loadAll f))"
    unfolding getByType_def by (rule prefix_imp_subseq [OF slice0_prefix])
  then show ?thesis by (rule subseq_order.trans) (rule subseq_filter_left)
qed

lemma getByType_matches: "list_all (\<lambda>item. strict_eq (lookup item ''type'') ty) (getByType f ty l)"
proof -
  have "set (getByType f ty l) \<subseteq> set (filter (\<lambda>item. strict_eq (lookup item ''type'') ty) (loadAll f))"
    unfolding getByType_def by (rule set_mono_prefix [OF slice0_prefix])
  then show ?thesis by (auto simp: list_all_iff)
qed

lemma getByType_none:
  "filter (\<lambda>item. strict_eq (lookup item ''type'') ty) (loadAll f) = [] \<Longrightarrow> getByType f ty l = []"
  by (simp add: getByType_def)

text \<open>
  Claim C8, as the code has it. \<^verbatim>\<open>getRecent\<close> and \<^verbatim>\<open>getByType\<close> return a subsequence of the
  stored sequence, so newest first; \<^verbatim>\<open>getByType\<close> returns records of the asked type only;
  both return the empty sequence, and no error, when nothing matches, when the store is
  empty and when the file cannot be read. With a limit that is not negative they return
  at most that many records. (A negative limit reaches \<^verbatim>\<open>slice\<close> as it is and counts from
  the back of the sequence: see the counterexample.)
\<close>

theorem query_newest_first_bounded:
  "(0 \<le> limit \<longrightarrow>
      int (length (getRecent f (Some limit))) \<le> limit
      \<and> int (length (getByType f ty (Some limit))) \<le> limit)
   \<and> subseq (getRecent f l) (loadAll f)
   \<and> subseq (getByType f ty l) (loadAll f)
   \<and> list_all (\<lambda>item. strict_eq (lookup item ''type'') ty) (getByType f ty l)
   \<and> (filter (\<lambda>item. strict_eq (lookup item ''type'') ty) (loadAll f) = [] \<longrightarrow> getByType f ty l = [])
   \<and> (loadAll f = [] \<longrightarrow> getRecent f l = [])
   \<and> getRecent Unreadable l = []
   \<and> getByType Unreadable ty l = []"
proof -
  have "0 \<le> limit \<longrightarrow>
      int (length (getRecent f (Some limit))) \<le> limit
      \<and> int (length (getByType f ty (Some limit))) \<le> limit"
    by (simp add: getRecent_def getByType_def slice0_length)
  moreover have "subseq (getRecent f l) (loadAll f)"
    by (rule prefix_imp_subseq [OF getRecent_prefix])
  moreover have "loadAll f = [] \<longrightarrow> getRecent f l = []"
    by (simp add: getRecent_def)
  moreover have "getRecent Unreadable l = []" by (simp add: getRecent_def)
  moreover have "getByType Unreadable ty l = []" by (simp add: getByType_def)
  ultimately show ?thesis
    using getByType_subseq [of f ty l] getByType_matches [of ty f l] getByType_none [of ty f l]
    by blast
qed

theorem query_newest_first_bounded_witness:
  "(0::int) \<le> 1
   \<and> getRecent (Content [measurement later_clock sample_result, measurement sample_clock sample_result]) (Some 1)
       = [measurement later_clock sample_result]
   \<and> getByType (Content [measurement later_clock sample_result, measurement sample_clock sample_result])
       (Some (JStr ''ping'')) (Some 1) = [measurement later_clock sample_result]
   \<and> filter (\<lambda>item. strict_eq (lookup item ''type'') (Some (JStr ''dns'')))
       (loadAll (Content [measurement later_clock sample_result, measurement sample_clock sample_result])) = []
   \<and> getByType (Content [measurement later_clock sample_result, measurement sample_clock sample_result])
       (Some (JStr ''dns'')) (Some 1) = []
   \<and> loadAll Unreadable = []
   \<and> getRecent Unreadable (Some 1) = []"
proof -
  let ?f = "Content [measurement later_clock sample_result, measurement sample_clock sample_result]"
  note t = query_newest_first_bounded [of 1 ?f "Some (JStr ''dns'')" "Some 1"]
  note u = query_newest_first_bounded [of 1 Unreadable "Some (JStr ''dns'')" "Some 1"]
  have none: "filter (\<lambda>item. strict_eq (lookup item ''type'') (Some (JStr ''dns''))) (loadAll ?f) = []"
    by (simp add: lookup_measurement sample_result_def)
  with t have "getByType ?f (Some (JStr ''dns'')) (Some 1) = []" by blast
  moreover from u have "getRecent Unreadable (Some 1) = []" by simp
  moreover have "getRecent ?f (Some 1) = [measurement later_clock sample_result]"
    by (simp add: getRecent_def slice0_def)
  moreover have "getByType ?f (Some (JStr ''ping'')) (Some 1) = [measurement later_clock sample_result]"
    by (simp add: getByType_def slice0_def lookup_measurement sample_result_def)
  ultimately show ?thesis using none by simp
qed

text \<open>
  Claim C8 as stated fails for a negative limit: \<^verbatim>\<open>GET /api/measurements?limit=-1\<close> passes
  \<open>-1\<close> to \<^verbatim>\<open>getRecent\<close>, whose \<^verbatim>\<open>slice(0, -1)\<close> returns all records but the last: one record
  of a store of two, which is more than the limit.
\<close>

theorem query_negative_limit_counterexample:
  "\<not> int (length (getRecent (Content [measurement later_clock sample_result, measurement sample_clock sample_result])
        (Some (- 1)))) \<le> - 1
   \<and> get_measurements (Content [measurement later_clock sample_result, measurement sample_clock sample_result])
        (Some (- 1)) = [measurement later_clock sample_result]"
  by (simp add: getRecent_def get_measurements_def route_limit_def slice0_def)

section \<open>Properties of the management API\<close>

lemma on_result_not_null:
  "result \<noteq> JNull \<Longrightarrow>
   on_result c w s (Parsed result) =
     (s\<lparr>jobResults := merge_job (jobResults s) result,
        storage := snd (saveMeasurement c w (storage s) result)\<rparr>,
      broadcastToWebSocket s (JObj [(''type'', JStr ''job_result''), (''data'', result)]))"
  by (simp add: on_result_def Let_def)

lemma merge_job_miss:
  "findIndex (\<lambda>j. strict_eq (lookup j ''id'') (lookup result ''jobId'')) jobs = None \<Longrightarrow>
   merge_job jobs result = jobs"
  by (simp add: merge_job_def)

text \<open>
  Claim C5. For every result document the correlator receives, whether or not a job with
  its \<^verbatim>\<open>jobId\<close> is in the job table, and however the write ends: the store afterwards is
  what \<^verbatim>\<open>saveMeasurement\<close> makes of the result, and the message \<^verbatim>\<open>job_result\<close> carrying the
  result is sent to every WebSocket client that is open. A result that matches no job
  leaves the job table as it was. When the write succeeds the result's record is the
  first of the stored sequence; when the append returns false the same messages are sent
  as when it returns true.
\<close>

theorem correlator_saves_and_broadcasts:
  "storage (fst (on_result c w s (Parsed (JObj ps)))) = snd (saveMeasurement c w (storage s) (JObj ps))
   \<and> snd (on_result c w s (Parsed (JObj ps)))
       = map (\<lambda>cl. Send (fst cl) (JObj [(''type'', JStr ''job_result''), (''data'', JObj ps)]))
           (filter snd (clients s))
   \<and> (findIndex (\<lambda>j. strict_eq (lookup j ''id'') (map_of ps ''jobId'')) (jobResults s) = None \<longrightarrow>
        jobResults (fst (on_result c w s (Parsed (JObj ps)))) = jobResults s)
   \<and> loadAll (storage (fst (on_result c WriteOk s (Parsed (JObj ps)))))
       = measurement c (JObj ps) # take 999 (loadAll (storage s))
   \<and> (\<not> fst (saveMeasurement c w (storage s) (JObj ps)) \<longrightarrow>
        snd (on_result c w s (Parsed (JObj ps))) = snd (on_result c WriteOk s (Parsed (JObj ps))))"
  by (simp add: on_result_not_null broadcastToWebSocket_def merge_job_def written_head)

theorem correlator_saves_and_broadcasts_witness:
  "findIndex (\<lambda>j. strict_eq (lookup j ''id'') (lookup sample_result ''jobId'')) (jobResults sample_api) = None
   \<and> \<not> fst (saveMeasurement sample_clock WriteTorn (storage sample_api) sample_result)
   \<and> on_result sample_clock WriteTorn sample_api (Parsed sample_result)
       = (sample_api\<lparr>storage := Unreadable\<rparr>,
          [Send 1 (JObj [(''type'', JStr ''job_result''), (''data'', sample_result)]),
           Send 3 (JObj [(''type'', JStr ''job_result''), (''data'', sample_result)])])
   \<and> loadAll (storage (fst (on_result sample_clock WriteOk sample_api (Parsed sample_result))))
       = [measurement sample_clock sample_result]"
  using correlator_saves_and_broadcasts [of sample_clock WriteTorn sample_api "[(''jobId'', JStr ''job_1700000000000_abc''), (''type'', JStr ''ping''),
           (''result'', JObj [(''success'', JBool True)])]"]
  by (simp add: sample_result_def sample_api_def saveMeasurement_torn on_result_not_null
        broadcastToWebSocket_def merge_job_def written_head)

lemma post_jobs_accepted:
  "natsConnection s \<Longrightarrow>
   post_jobs c Accepts s body =
     (s\<lparr>jobResults := jobResults s @ [new_job c body]\<rparr>,
      [Publish ''mmn.jobs.submit'' (new_job c body),
       Respond 200 (JObj [(''success'', JBool True), (''jobId'', JStr (generateJobId c))])])"
  by (simp add: post_jobs_def nats_publish_def Let_def)

lemma post_jobs_rejected:
  "natsConnection s \<Longrightarrow>
   post_jobs c (Rejects err) s body =
     (s, [Respond 500 (JObj [(''success'', JBool False), (''error'', JStr (message err))])])"
  by (simp add: post_jobs_def nats_publish_def Let_def)

lemma post_jobs_no_connection:
  "\<not> natsConnection s \<Longrightarrow>
   post_jobs c b s body =
     (s, [Respond 500 (JObj [(''success'', JBool False),
        (''error'', JStr ''Cannot read properties of null (reading 'publish')'')])])"
  by (simp add: post_jobs_def nats_publish_def TypeError_def Let_def)

lemma map_of_set_prop:
  "map_of (set_prop ps k v) k' = (if k' = k then v else map_of ps k')"
  by (cases v) (simp_all add: set_prop_def update_conv' delete_conv')

lemma lookup_new_job:
  "lookup (new_job c body) k =
     (if k = ''status'' then Some (JStr ''submitted'')
      else if k = ''timestamp'' then Some (JNum (int (now c)))
      else if k = ''target'' then lookup body ''target''
      else if k = ''type'' then lookup body ''type''
      else if k = ''id'' then Some (JStr (generateJobId c))
      else None)"
  by (simp add: new_job_def obj_def map_of_set_prop)

text \<open>
  Claim C7. When the publish on \<^verbatim>\<open>mmn.jobs.submit\<close> throws (the connection rejects it, or
  there is no connection), the caller gets status 500 with the error's message, the job
  table is unchanged and nothing is published: the handler calls \<^verbatim>\<open>publish\<close> once. When
  the publish returns, the job is appended to the job table, it is the message published,
  and the caller gets the job's id.
\<close>

theorem submit_publish_failure:
  "(nats_publish (natsConnection s) b = Inl err \<longrightarrow>
      post_jobs c b s body
        = (s, [Respond 500 (JObj [(''success'', JBool False), (''error'', JStr (message err))])]))
   \<and> (nats_publish (natsConnection s) b = Inr () \<longrightarrow>
      post_jobs c b s body
        = (s\<lparr>jobResults := jobResults s @ [new_job c body]\<rparr>,
           [Publish ''mmn.jobs.submit'' (new_job c body),
            Respond 200 (JObj [(''success'', JBool True), (''jobId'', JStr (generateJobId c))])])
      \<and> lookup (new_job c body) ''id'' = Some (JStr (generateJobId c)))
   \<and> (nats_publish (natsConnection s) b = Inr () \<longleftrightarrow> natsConnection s \<and> b = Accepts)"
proof -
  have "nats_publish (natsConnection s) b = Inr () \<longleftrightarrow> natsConnection s \<and> b = Accepts"
    by (cases b) (simp_all add: nats_publish_def)
  moreover have "lookup (new_job c body) ''id'' = Some (JStr (generateJobId c))"
    by (simp add: lookup_new_job)
  moreover have "nats_publish (natsConnection s) b = Inl err \<longrightarrow>
      post_jobs c b s body
        = (s, [Respond 500 (JObj [(''success'', JBool False), (''error'', JStr (message err))])])"
    by (simp add: post_jobs_def Let_def)
  moreover have "nats_publish (natsConnection s) b = Inr () \<longrightarrow>
      post_jobs c b s body
        = (s\<lparr>jobResults := jobResults s @ [new_job c body]\<rparr>,
           [Publish ''mmn.jobs.submit'' (new_job c body),
            Respond 200 (JObj [(''success'', JBool True), (''jobId'', JStr (generateJobId c))])])"
    by (simp add: post_jobs_def Let_def)
  ultimately show ?thesis by blast
qed


theorem submit_publish_failure_witness:
  "nats_publish (natsConnection sample_api) (Rejects bus_closed) = Inl bus_closed
   \<and> post_jobs sample_clock (Rejects bus_closed) sample_api sample_result
       = (sample_api, [Respond 500 (JObj [(''success'', JBool False), (''error'', JStr ''CONNECTION_CLOSED'')])])
   \<and> nats_publish (natsConnection sample_api) Accepts = Inr ()
   \<and> jobResults (fst (post_jobs sample_clock Accepts sample_api sample_result))
       = [new_job sample_clock sample_result]
   \<and> nats_publish False Accepts
       = Inl (TypeError ''Cannot read properties of null (reading 'publish')'')
   \<and> post_jobs sample_clock Accepts (sample_api\<lparr>natsConnection := False\<rparr>) sample_result
       = (sample_api\<lparr>natsConnection := False\<rparr>,
          [Respond 500 (JObj [(''success'', JBool False),
             (''error'', JStr ''Cannot read properties of null (reading 'publish')'')])])"
proof -
  have a: "nats_publish (natsConnection sample_api) (Rejects bus_closed) = Inl bus_closed"
    by (simp add: nats_publish_def sample_api_def)
  have b: "nats_publish (natsConnection sample_api) Accepts = Inr ()"
    by (simp add: nats_publish_def sample_api_def)
  have c: "nats_publish (natsConnection (sample_api\<lparr>natsConnection := False\<rparr>)) Accepts
       = Inl (TypeError ''Cannot read properties of null (reading 'publish')'')"
    by (simp add: nats_publish_def)
  from a submit_publish_failure [of sample_api "Rejects bus_closed" bus_closed sample_clock sample_result]
  have "post_jobs sample_clock (Rejects bus_closed) sample_api sample_result
       = (sample_api, [Respond 500 (JObj [(''success'', JBool False), (''error'', JStr (message bus_closed))])])"
    by blast
  moreover from b submit_publish_failure [of sample_api Accepts bus_closed sample_clock sample_result]
  have "post_jobs sample_clock Accepts sample_api sample_result
        = (sample_api\<lparr>jobResults := jobResults sample_api @ [new_job sample_clock sample_result]\<rparr>,
           [Publish ''mmn.jobs.submit'' (new_job sample_clock sample_result),
            Respond 200 (JObj [(''success'', JBool True), (''jobId'', JStr (generateJobId sample_clock))])])"
    by blast
  moreover from c submit_publish_failure [of "sample_api\<lparr>natsConnection := False\<rparr>" Accepts
      "TypeError ''Cannot read properties of null (reading 'publish')''" sample_clock sample_result]
  have "post_jobs sample_clock Accepts (sample_api\<lparr>natsConnection := False\<rparr>) sample_result
       = (sample_api\<lparr>natsConnection := False\<rparr>,
          [Respond 500 (JObj [(''success'', JBool False),
             (''error'', JStr (message (TypeError ''Cannot read properties of null (reading 'publish')'')))])])"
    by blast
  ultimately show ?thesis using a b c
    by (simp add: bus_closed_def TypeError_def sample_api_def)
qed

lemma digit_chars:
  "char_of (48 :: nat) = CHR ''0''" "char_of (49 :: nat) = CHR ''1''" "char_of (50 :: nat) = CHR ''2''"
  "char_of (51 :: nat) = CHR ''3''" "char_of (52 :: nat) = CHR ''4''" "char_of (53 :: nat) = CHR ''5''"
  "char_of (54 :: nat) = CHR ''6''" "char_of (55 :: nat) = CHR ''7''" "char_of (56 :: nat) = CHR ''8''"
  "char_of (57 :: nat) = CHR ''9''"
  by (simp_all add: char_of_def bit_Suc_0_iff)

lemma dec_sample: "dec 1700000000000 = ''1700000000000''"
  by (simp add: dec.simps digit_chars)

lemma new_job_bogus:
  "new_job sample_clock bogus_request =
     JObj [(''id'', JStr ''job_1700000000000_k3j9x0q2a''), (''type'', JStr ''bogus''),
           (''target'', JStr []), (''timestamp'', JNum 1700000000000),
           (''status'', JStr ''submitted'')]"
  by (simp add: new_job_def obj_def set_prop_def generateJobId_def sample_clock_def
        bogus_request_def dec_sample)

lemma post_jobs_unchanged_iff:
  "fst (post_jobs c b s body) = s \<longleftrightarrow> \<not> (natsConnection s \<and> b = Accepts)"
proof (cases "natsConnection s")
  case False
  then show ?thesis by (simp add: post_jobs_no_connection)
next
  case True
  show ?thesis
  proof (cases b)
    case Accepts
    have "jobResults (s\<lparr>jobResults := jobResults s @ [new_job c body]\<rparr>) \<noteq> jobResults s"
      by simp
    then have "s\<lparr>jobResults := jobResults s @ [new_job c body]\<rparr> \<noteq> s"
      by metis
    with True Accepts show ?thesis by (simp add: post_jobs_accepted)
  next
    case (Rejects err)
    with True show ?thesis by (simp add: post_jobs_rejected)
  qed
qed

text \<open>
  Claim C3, as the code has it. The handler of \<^verbatim>\<open>POST /api/jobs\<close> does not look at the
  kind or the target: with a connection that accepts the publish, every request is
  published on \<^verbatim>\<open>mmn.jobs.submit\<close> and recorded, with the kind and the target it came with;
  whether a request is turned down does not depend on its body; and a request is turned
  down (status 500, nothing recorded) only when the publish fails.
\<close>

theorem submit_without_validation:
  "(natsConnection s \<longrightarrow>
      post_jobs c Accepts s body
        = (s\<lparr>jobResults := jobResults s @ [new_job c body]\<rparr>,
           [Publish ''mmn.jobs.submit'' (new_job c body),
            Respond 200 (JObj [(''success'', JBool True), (''jobId'', JStr (generateJobId c))])]))
   \<and> lookup (new_job c body) ''type'' = lookup body ''type''
   \<and> lookup (new_job c body) ''target'' = lookup body ''target''
   \<and> (fst (post_jobs c b s body) = s \<longleftrightarrow> fst (post_jobs c b s body') = s)
   \<and> (fst (post_jobs c b s body) = s \<longrightarrow>
        (\<exists>e. snd (post_jobs c b s body) = [Respond 500 e]) \<and> \<not> (natsConnection s \<and> b = Accepts))"
proof -
  have "fst (post_jobs c b s body) = s \<longrightarrow> (\<exists>e. snd (post_jobs c b s body) = [Respond 500 e])"
  proof (cases "natsConnection s")
    case False
    then show ?thesis by (simp add: post_jobs_no_connection)
  next
    case True
    then show ?thesis
      using post_jobs_unchanged_iff [of c b s body]
      by (cases b) (simp_all add: post_jobs_rejected)
  qed
  then show ?thesis
    using post_jobs_accepted [of s c body] post_jobs_unchanged_iff [of c b s body]
      post_jobs_unchanged_iff [of c b s body']
    by (simp add: lookup_new_job)
qed

theorem submit_without_validation_witness:
  "natsConnection sample_api
   \<and> post_jobs sample_clock Accepts sample_api bogus_request
       = (sample_api\<lparr>jobResults := [new_job sample_clock bogus_request]\<rparr>,
          [Publish ''mmn.jobs.submit'' (new_job sample_clock bogus_request),
           Respond 200 (JObj [(''success'', JBool True), (''jobId'', JStr (generateJobId sample_clock))])])
   \<and> lookup (new_job sample_clock bogus_request) ''type'' = Some (JStr ''bogus'')
   \<and> fst (post_jobs sample_clock (Rejects bus_closed) sample_api bogus_request) = sample_api
   \<and> snd (post_jobs sample_clock (Rejects bus_closed) sample_api bogus_request)
       = [Respond 500 (JObj [(''success'', JBool False), (''error'', JStr ''CONNECTION_CLOSED'')])]"
proof -
  have conn: "natsConnection sample_api" by (simp add: sample_api_def)
  have r: "fst (post_jobs sample_clock (Rejects bus_closed) sample_api bogus_request) = sample_api"
    by (simp add: post_jobs_rejected conn)
  have j: "jobResults sample_api = []" by (simp add: sample_api_def)
  note t = submit_without_validation [of sample_api sample_clock bogus_request "Rejects bus_closed" bogus_request]
  from t conn have "post_jobs sample_clock Accepts sample_api bogus_request
       = (sample_api\<lparr>jobResults := jobResults sample_api @ [new_job sample_clock bogus_request]\<rparr>,
          [Publish ''mmn.jobs.submit'' (new_job sample_clock bogus_request),
           Respond 200 (JObj [(''success'', JBool True), (''jobId'', JStr (generateJobId sample_clock))])])"
    by blast
  moreover from t have "lookup (new_job sample_clock bogus_request) ''type'' = lookup bogus_request ''type''"
    by blast
  moreover have "snd (post_jobs sample_clock (Rejects bus_closed) sample_api bogus_request)
       = [Respond 500 (JObj [(''success'', JBool False), (''error'', JStr ''CONNECTION_CLOSED'')])]"
    by (simp add: post_jobs_rejected conn bus_closed_def)
  ultimately show ?thesis using conn r j by (simp add: bogus_request_def)
qed

text \<open>
  Claim C3 as stated fails: a request of the unknown kind \<^verbatim>\<open>bogus\<close> with an empty target
  is published, recorded and answered with its job id.
\<close>

theorem submit_unvalidated_counterexample:
  "post_jobs sample_clock Accepts sample_api bogus_request
     = (sample_api\<lparr>jobResults :=
          [JObj [(''id'', JStr ''job_1700000000000_k3j9x0q2a''), (''type'', JStr ''bogus''),
                 (''target'', JStr []), (''timestamp'', JNum 1700000000000),
                 (''status'', JStr ''submitted'')]]\<rparr>,
        [Publish ''mmn.jobs.submit''
           (JObj [(''id'', JStr ''job_1700000000000_k3j9x0q2a''), (''type'', JStr ''bogus''),
                  (''target'', JStr []), (''timestamp'', JNum 1700000000000),
                  (''status'', JStr ''submitted'')]),
         Respond 200 (JObj [(''success'', JBool True), (''jobId'', JStr ''job_1700000000000_k3j9x0q2a'')])])"
proof -
  have "natsConnection sample_api" by (simp add: sample_api_def)
  then have "post_jobs sample_clock Accepts sample_api bogus_request
     = (sample_api\<lparr>jobResults := jobResults sample_api @ [new_job sample_clock bogus_request]\<rparr>,
        [Publish ''mmn.jobs.submit'' (new_job sample_clock bogus_request),
         Respond 200 (JObj [(''success'', JBool True), (''jobId'', JStr (generateJobId sample_clock))])])"
    by (rule post_jobs_accepted)
  moreover have "jobResults sample_api = []" by (simp add: sample_api_def)
  moreover have "generateJobId sample_clock = ''job_1700000000000_k3j9x0q2a''"
    by (simp add: generateJobId_def sample_clock_def dec_sample)
  ultimately show ?thesis by (simp add: new_job_bogus)
qed

section \<open>Properties of the worker registry\<close>

lemma map_of_announce:
  "map_of (handleModuleAnnouncement c modules a) k =
     (if k = a_name a
      then Some \<lparr>announced = a, lastSeen = int (now c), healthy = True, connectionTime = iso c\<rparr>
      else map_of modules k)"
  by (simp add: handleModuleAnnouncement_def update_conv')

lemma map_of_sweep: "map_of (sweep t modules) k = map_option (sweep_module t) (map_of modules k)"
  by (induction modules) (simp_all add: sweep_def)

lemma map_of_sweeps:
  "map_of (sweeps ts modules) k = map_option (fold sweep_module ts) (map_of modules k)"
proof (induction ts arbitrary: modules)
  case Nil
  show ?case by (simp add: sweeps_def option.map_ident)
next
  case (Cons t ts)
  have "map_of (sweeps (t # ts) modules) k = map_of (sweeps ts (sweep t modules)) k"
    by (simp add: sweeps_def)
  also have "\<dots> = map_option (fold sweep_module ts) (map_of (sweep t modules) k)"
    by (rule Cons.IH)
  finally show ?case by (simp add: map_of_sweep option.map_comp comp_def)
qed

lemma sweep_module_fields:
  "lastSeen (sweep_module t m) = lastSeen m"
  "announced (sweep_module t m) = announced m"
  "healthy (sweep_module t m) \<longleftrightarrow> healthy m \<and> t - lastSeen m \<le> 30000"
  by (simp_all add: sweep_module_def)

lemma fold_sweep_module:
  "lastSeen (fold sweep_module ts m) = lastSeen m
   \<and> announced (fold sweep_module ts m) = announced m
   \<and> (healthy (fold sweep_module ts m) \<longleftrightarrow> healthy m \<and> list_all (\<lambda>t. t - lastSeen m \<le> 30000) ts)"
proof (induction ts arbitrary: m)
  case Nil
  show ?case by simp
next
  case (Cons t ts)
  from Cons.IH [of "sweep_module t m"] show ?case
    by (auto simp: sweep_module_fields)
qed

text \<open>
  Claim C4. An announcement puts under its name the record made of the announcement,
  with \<^verbatim>\<open>lastSeen\<close> the current time and \<^verbatim>\<open>healthy\<close> true, and leaves the other names alone.
  A sweep at time \<open>t\<close> keeps \<^verbatim>\<open>lastSeen\<close>, and a record is healthy after it exactly when it
  was healthy before and \<open>t - lastSeen\<close> is at most 30000 ms. So after a run of sweeps a
  record is healthy exactly when it was healthy at the start and no sweep of the run
  found it older than the window: it turns unhealthy at the first sweep that does, not
  earlier, and no sweep turns it healthy again.
\<close>

theorem registry_announce_and_sweep:
  "map_of (handleModuleAnnouncement c modules a) (a_name a)
     = Some \<lparr>announced = a, lastSeen = int (now c), healthy = True, connectionTime = iso c\<rparr>
   \<and> (k \<noteq> a_name a \<longrightarrow> map_of (handleModuleAnnouncement c modules a) k = map_of modules k)
   \<and> (map_of modules k = None \<longrightarrow> map_of (sweep t modules) k = None)
   \<and> (map_of modules k = Some m \<longrightarrow>
        (\<exists>m'. map_of (sweep t modules) k = Some m'
           \<and> lastSeen m' = lastSeen m \<and> announced m' = announced m
           \<and> (healthy m' \<longleftrightarrow> healthy m \<and> t - lastSeen m \<le> 30000))
        \<and> (\<exists>m'. map_of (sweeps ts modules) k = Some m'
           \<and> lastSeen m' = lastSeen m
           \<and> (healthy m' \<longleftrightarrow> healthy m \<and> list_all (\<lambda>t. t - lastSeen m \<le> 30000) ts)))"
  using fold_sweep_module [of ts m]
  by (simp add: map_of_announce map_of_sweep map_of_sweeps sweep_module_fields)


theorem registry_announce_and_sweep_witness:
  "map_of (handleModuleAnnouncement sample_clock [] ping_announcement) ''ping-module''
     = Some \<lparr>announced = ping_announcement, lastSeen = 1700000000000, healthy = True,
             connectionTime = ''2023-11-14T22:13:20.000Z''\<rparr>
   \<and> map_option healthy (map_of (sweeps [1700000010000, 1700000020000, 1700000030000]
         (handleModuleAnnouncement sample_clock [] ping_announcement)) ''ping-module'') = Some True
   \<and> map_option healthy (map_of (sweeps [1700000010000, 1700000020000, 1700000030001]
         (handleModuleAnnouncement sample_clock [] ping_announcement)) ''ping-module'') = Some False
   \<and> map_option healthy (map_of (sweeps [1700000030001, 1700000020000]
         (handleModuleAnnouncement sample_clock [] ping_announcement)) ''ping-module'') = Some False"
proof -
  let ?reg = "handleModuleAnnouncement sample_clock [] ping_announcement"
  let ?m = "\<lparr>announced = ping_announcement, lastSeen = 1700000000000, healthy = True,
             connectionTime = ''2023-11-14T22:13:20.000Z''\<rparr>"
  have n: "a_name ping_announcement = ''ping-module''" by (simp add: ping_announcement_def)
  have c: "int (now sample_clock) = 1700000000000" "iso sample_clock = ''2023-11-14T22:13:20.000Z''"
    by (simp_all add: sample_clock_def)
  from registry_announce_and_sweep [of sample_clock "[]" ping_announcement "''ping-module''"]
  have m: "map_of ?reg ''ping-module'' = Some ?m"
    using n c by simp
  have s: "\<And>ts. map_option healthy (map_of (sweeps ts ?reg) ''ping-module'')
      = Some (list_all (\<lambda>t. t - 1700000000000 \<le> 30000) ts)"
  proof -
    fix ts
    from registry_announce_and_sweep [of sample_clock ?reg ping_announcement "''ping-module''" 0 ?m ts] m
    obtain m' where "map_of (sweeps ts ?reg) ''ping-module'' = Some m'"
      and "healthy m' \<longleftrightarrow> healthy ?m \<and> list_all (\<lambda>t. t - lastSeen ?m \<le> 30000) ts"
      by blast
    then show "map_option healthy (map_of (sweeps ts ?reg) ''ping-module'')
      = Some (list_all (\<lambda>t. t - 1700000000000 \<le> 30000) ts)"
      by simp
  qed
  show ?thesis using m by (simp add: s)
qed

section \<open>Properties of the ping worker\<close>

lemma set_trim: "set (trim s) \<subseteq> set s"
proof -
  have "set (trim s) \<subseteq> set (dropWhile is_white_space s)"
    unfolding trim_def using set_dropWhileD [of _ is_white_space "rev (dropWhile is_white_space s)"]
    by auto
  moreover have "set (dropWhile is_white_space s) \<subseteq> set s"
    using set_dropWhileD [of _ is_white_space s] by auto
  ultimately show ?thesis by blast
qed

lemma set_strip_protocol: "set (strip_protocol s) \<subseteq> set s"
  unfolding strip_protocol_def using set_drop_subset [of _ s] by simp

lemma strip_path_single_line:
  "\<not> list_ex is_line_terminator s \<Longrightarrow> CHR ''/'' \<notin> set (strip_path s)"
  by (induction s) simp_all

lemma cleanTarget_no_meta: "list_all (\<lambda>c. \<not> is_shell_meta c) (cleanTarget t)"
proof -
  have "set (cleanTarget t) \<subseteq> set (strip_meta (strip_path (strip_protocol t)))"
    unfolding cleanTarget_def by (rule set_trim)
  then show ?thesis by (auto simp: list_all_iff strip_meta_def)
qed

lemma cleanTarget_single_line:
  assumes "\<not> list_ex is_line_terminator t"
  shows "CHR ''/'' \<notin> set (cleanTarget t)"
proof -
  from assms have "\<not> list_ex is_line_terminator (strip_protocol t)"
    using set_strip_protocol [of t] by (auto simp: list_ex_iff)
  then have "CHR ''/'' \<notin> set (strip_path (strip_protocol t))"
    by (rule strip_path_single_line)
  then have "CHR ''/'' \<notin> set (strip_meta (strip_path (strip_protocol t)))"
    by (simp add: strip_meta_def)
  then show ?thesis
    unfolding cleanTarget_def using set_trim by blast
qed

text \<open>
  Claim C10 on the code. \<^verbatim>\<open>cleanTarget\<close> removes every one of the seven shell characters
  (\<open>cleanTarget_no_meta\<close>), and on a target without a line terminator its result has no
  slash at all, so neither a path nor a protocol prefix (\<open>cleanTarget_single_line\<close>). On a
  target with a line feed after a slash the path pattern \<^verbatim>\<open>/\/.*$/\<close> finds no match, since
  \<^verbatim>\<open>.\<close> stops at the line feed and \<^verbatim>\<open>$\<close> is the end of the input: the path stays, a second
  protocol prefix stays, and the line feed goes into the shell command.
\<close>

theorem cleanTarget_multiline:
  "cleanTarget (''8.8.8.8/x'' @ [CHR 0x0A] @ ''id'') = ''8.8.8.8/x'' @ [CHR 0x0A] @ ''id''
   \<and> cleanTarget (''http://http://a'' @ [CHR 0x0A] @ ''b'') = ''http://a'' @ [CHR 0x0A] @ ''b''
   \<and> ping_command ''linux'' (''8.8.8.8/x'' @ [CHR 0x0A] @ ''id'')
       = ''ping -c 4 -W 3 8.8.8.8/x'' @ [CHR 0x0A] @ ''id''"
  by (simp add: ping_command_def cleanTarget_def trim_def strip_meta_def strip_protocol_def
        is_white_space_def is_shell_meta_def is_line_terminator_def)

lemma result_of_createPingResult:
  "path (JObj (set_prop (createPingResult e t ok rtt loss msg pt pr) ''jobId'' jid)) [''result'', ''success'']
     = Some (JBool ok)"
  by (simp add: map_of_set_prop createPingResult_def)

lemma result_of_ping_failure:
  "path (JObj (set_prop (ping_failure e ct err) ''jobId'' jid)) [''result'', ''success'']
     = Some (JBool False)"
  by (simp add: ping_failure_def Let_def result_of_createPingResult del: path.simps)

lemma template_printable: "printable v \<Longrightarrow> \<exists>s. template big v = Inr s"
  by (cases v) (simp_all add: printable_def template_def)

lemma template_unprintable: "\<not> printable v \<Longrightarrow> \<exists>err. template big v = Inl err"
  by (cases v) (simp_all add: printable_def template_def)

lemma reply_topic_printable: "printable v \<Longrightarrow> \<exists>topic. reply_topic big v = Inr topic"
  using template_printable [of v big] by (auto simp: reply_topic_def)

lemma createErrorResult_printable:
  "template (ping_print e) (lookup job ''target'') = Inr s \<Longrightarrow>
   \<exists>errorResult. createErrorResult e job msg = Inr errorResult
      \<and> path (JObj errorResult) [''result'', ''success''] = Some (JBool False)"
  by (simp add: createErrorResult_def obj_def map_of_set_prop)

lemma executeRealPing_fails:
  "strategy_fails e target \<Longrightarrow> executeRealPing e target = Inr pingResult \<Longrightarrow>
   \<exists>ct err. pingResult = ping_failure e ct err"
  by (auto simp: strategy_fails_def executeRealPing_def
      split: option.splits json.splits exec_outcome.splits)

lemma processPingJob_catch_accepted:
  assumes "template (ping_print e) (lookup job ''target'') = Inr s"
    and "reply_topic (ping_print e) (lookup job ''id'') = Inr topic"
  shows "\<exists>r. processPingJob_catch e Accepts job error = ([Publish topic r], None)
     \<and> path r [''result'', ''success''] = Some (JBool False)"
proof -
  from createErrorResult_printable [OF assms(1), of "''Ping failed: '' @ message error"]
  obtain errorResult where c: "createErrorResult e job (''Ping failed: '' @ message error) = Inr errorResult"
    and p: "path (JObj errorResult) [''result'', ''success''] = Some (JBool False)"
    by blast
  have "processPingJob_catch e Accepts job error = ([Publish topic (JObj errorResult)], None)"
    using assms c by (simp add: processPingJob_catch_def)
  with p show ?thesis by blast
qed

lemma processPingJob_accepted:
  assumes "printable (lookup job ''target'')" and "printable (lookup job ''id'')"
  shows "\<exists>topic r. reply_topic (ping_print e) (lookup job ''id'') = Inr topic
     \<and> processPingJob e Accepts Accepts job = ([Publish topic r], None)
     \<and> (strategy_fails e (lookup job ''target'') \<longrightarrow> path r [''result'', ''success''] = Some (JBool False))"
proof -
  from template_printable [OF assms(1)] obtain s
    where s: "template (ping_print e) (lookup job ''target'') = Inr s" by blast
  from reply_topic_printable [OF assms(2)] obtain topic
    where t: "reply_topic (ping_print e) (lookup job ''id'') = Inr topic" by blast
  show ?thesis
  proof (cases "executeRealPing e (lookup job ''target'')")
    case (Inl error)
    from processPingJob_catch_accepted [OF s t, of error] obtain r
      where "processPingJob_catch e Accepts job error = ([Publish topic r], None)"
        and "path r [''result'', ''success''] = Some (JBool False)"
      by blast
    with Inl t show ?thesis by (simp add: processPingJob_def)
  next
    case (Inr pingResult)
    let ?r = "JObj (set_prop pingResult ''jobId'' (lookup job ''id''))"
    have p: "processPingJob e Accepts Accepts job = ([Publish topic ?r], None)"
      using Inr s t by (simp add: processPingJob_def Let_def)
    have "strategy_fails e (lookup job ''target'') \<longrightarrow>
        path ?r [''result'', ''success''] = Some (JBool False)"
    proof
      assume "strategy_fails e (lookup job ''target'')"
      from executeRealPing_fails [OF this Inr] obtain ct err
        where "pingResult = ping_failure e ct err" by blast
      then show "path ?r [''result'', ''success''] = Some (JBool False)"
        by (simp only: result_of_ping_failure)
    qed
    with p t show ?thesis by blast
  qed
qed

lemma processPingJob_catch_at_most_one:
  "fst (processPingJob_catch e b2 job error) = []
   \<or> (\<exists>topic r. reply_topic (ping_print e) (lookup job ''id'') = Inr topic
         \<and> fst (processPingJob_catch e b2 job error) = [Publish topic r])"
  by (cases b2) (simp_all add: processPingJob_catch_def split: sum.splits)

lemma processPingJob_catch_unprintable:
  "template (ping_print e) (lookup job ''target'') = Inl x \<Longrightarrow>
   fst (processPingJob_catch e b2 job error) = []"
  by (simp add: processPingJob_catch_def)

lemma processPingJob_catch_rejected: "fst (processPingJob_catch e (Rejects x) job error) = []"
  by (simp add: processPingJob_catch_def split: sum.splits)

lemma processPingJob_at_most_one:
  "fst (processPingJob e b1 b2 job) = []
   \<or> (\<exists>topic r. reply_topic (ping_print e) (lookup job ''id'') = Inr topic
         \<and> fst (processPingJob e b1 b2 job) = [Publish topic r])"
proof (cases "executeRealPing e (lookup job ''target'')")
  case (Inl error)
  with processPingJob_catch_at_most_one [of e b2 job error] show ?thesis
    by (simp add: processPingJob_def)
next
  case (Inr pingResult)
  show ?thesis
  proof (cases "reply_topic (ping_print e) (lookup job ''id'')")
    case (Inl error)
    with Inr processPingJob_catch_at_most_one [of e b2 job error] show ?thesis
      by (simp add: processPingJob_def)
  next
    case t: (Inr topic)
    show ?thesis
    proof (cases b1)
      case (Rejects error)
      with Inr t processPingJob_catch_at_most_one [of e b2 job error] show ?thesis
        by (simp add: processPingJob_def)
    next
      case Accepts
      show ?thesis
      proof (cases "template (ping_print e) (lookup job ''target'')")
        case (Inl x)
        with Inr t Accepts processPingJob_catch_unprintable [OF Inl, of b2 x] show ?thesis
          by (simp add: processPingJob_def Let_def)
      next
        case (Inr logged)
        with \<open>executeRealPing e (lookup job ''target'') = Inr pingResult\<close> t Accepts show ?thesis
          by (simp add: processPingJob_def Let_def)
      qed
    qed
  qed
qed

lemma processPingJob_both_rejected:
  "fst (processPingJob e (Rejects err1) (Rejects err2) job) = []"
  using processPingJob_catch_rejected [of e err2 job]
  by (simp add: processPingJob_def split: sum.splits)

lemma ping_type_is_object:
  "strict_eq (lookup job ''type'') (Some (JStr ''ping'')) \<Longrightarrow> job \<noteq> JNull"
  by (cases job) simp_all

lemma ping_on_message_ping:
  "strict_eq (lookup job ''type'') (Some (JStr ''ping'')) \<Longrightarrow>
   ping_on_message e b1 b2 m (Parsed job) =
     (case template (ping_print e) (lookup job ''target'') of
        Inl err \<Rightarrow> (m, [])
      | Inr logged \<Rightarrow> (m, fst (processPingJob e b1 b2 job)))"
  using ping_type_is_object [of job] by (simp add: ping_on_message_def)

lemma ping_on_message_state: "fst (ping_on_message e b1 b2 m p) = m"
  by (simp add: ping_on_message_def split: payload.splits sum.splits)

lemma ping_on_message_other_kind:
  "\<not> strict_eq (lookup job ''type'') (Some (JStr ''ping'')) \<Longrightarrow>
   ping_on_message e b1 b2 m (Parsed job) = (m, [])"
  by (simp add: ping_on_message_def)

text \<open>
  Claim C2, as the code has it. For an envelope of kind \<^verbatim>\<open>ping\<close> whose target and id can be
  converted to a string: when the bus accepts the worker's publish calls, the worker
  publishes exactly one result, on \<^verbatim>\<open>mmn.jobs.result.<job.id>\<close>, and when the strategy fails
  (the target is no string, or the shell command fails) that result has \<^verbatim>\<open>success\<close> false.
  For every envelope of kind \<^verbatim>\<open>ping\<close>, whatever the bus does, the worker publishes nothing
  or one result on that topic, never more; when the bus rejects both the publish of the
  \<^verbatim>\<open>try\<close> block and the one of the \<^verbatim>\<open>catch\<close> block, it publishes nothing. For an envelope of
  another kind, and for a message that is not JSON, it publishes nothing. No message
  changes the worker's fields.
\<close>

theorem ping_worker_publishes_once:
  "(strict_eq (lookup job ''type'') (Some (JStr ''ping'')) \<longrightarrow>
      (printable (lookup job ''target'') \<and> printable (lookup job ''id'') \<longrightarrow>
         (\<exists>topic r. reply_topic (ping_print e) (lookup job ''id'') = Inr topic
            \<and> ping_on_message e Accepts Accepts m (Parsed job) = (m, [Publish topic r])
            \<and> (strategy_fails e (lookup job ''target'') \<longrightarrow>
                 path r [''result'', ''success''] = Some (JBool False))))
      \<and> (snd (ping_on_message e b1 b2 m (Parsed job)) = []
           \<or> (\<exists>topic r. reply_topic (ping_print e) (lookup job ''id'') = Inr topic
                 \<and> snd (ping_on_message e b1 b2 m (Parsed job)) = [Publish topic r]))
      \<and> snd (ping_on_message e (Rejects err1) (Rejects err2) m (Parsed job)) = [])
   \<and> (\<not> strict_eq (lookup job ''type'') (Some (JStr ''ping'')) \<longrightarrow>
        ping_on_message e b1 b2 m (Parsed job) = (m, []))
   \<and> ping_on_message e b1 b2 m Malformed = (m, [])
   \<and> fst (ping_on_message e b1 b2 m p) = m"
proof -
  have a: "strict_eq (lookup job ''type'') (Some (JStr ''ping'')) \<longrightarrow>
      (printable (lookup job ''target'') \<and> printable (lookup job ''id'') \<longrightarrow>
         (\<exists>topic r. reply_topic (ping_print e) (lookup job ''id'') = Inr topic
            \<and> ping_on_message e Accepts Accepts m (Parsed job) = (m, [Publish topic r])
            \<and> (strategy_fails e (lookup job ''target'') \<longrightarrow>
                 path r [''result'', ''success''] = Some (JBool False))))"
  proof (intro impI)
    assume t: "strict_eq (lookup job ''type'') (Some (JStr ''ping''))"
      and pr: "printable (lookup job ''target'') \<and> printable (lookup job ''id'')"
    from pr template_printable obtain s
      where s: "template (ping_print e) (lookup job ''target'') = Inr s" by blast
    from pr processPingJob_accepted [of job e] obtain topic r
      where "reply_topic (ping_print e) (lookup job ''id'') = Inr topic"
        and "processPingJob e Accepts Accepts job = ([Publish topic r], None)"
        and "strategy_fails e (lookup job ''target'') \<longrightarrow> path r [''result'', ''success''] = Some (JBool False)"
      by blast
    moreover from this(2) have "ping_on_message e Accepts Accepts m (Parsed job) = (m, [Publish topic r])"
      by (simp add: ping_on_message_ping [OF t] s)
    ultimately show "\<exists>topic r. reply_topic (ping_print e) (lookup job ''id'') = Inr topic
            \<and> ping_on_message e Accepts Accepts m (Parsed job) = (m, [Publish topic r])
            \<and> (strategy_fails e (lookup job ''target'') \<longrightarrow>
                 path r [''result'', ''success''] = Some (JBool False))"
      by blast
  qed
  have b: "strict_eq (lookup job ''type'') (Some (JStr ''ping'')) \<longrightarrow>
      (snd (ping_on_message e b1 b2 m (Parsed job)) = []
           \<or> (\<exists>topic r. reply_topic (ping_print e) (lookup job ''id'') = Inr topic
                 \<and> snd (ping_on_message e b1 b2 m (Parsed job)) = [Publish topic r]))"
  proof
    assume t: "strict_eq (lookup job ''type'') (Some (JStr ''ping''))"
    show "snd (ping_on_message e b1 b2 m (Parsed job)) = []
           \<or> (\<exists>topic r. reply_topic (ping_print e) (lookup job ''id'') = Inr topic
                 \<and> snd (ping_on_message e b1 b2 m (Parsed job)) = [Publish topic r])"
      using processPingJob_at_most_one [of e b1 b2 job]
      by (cases "template (ping_print e) (lookup job ''target'')")
         (simp_all add: ping_on_message_ping [OF t])
  qed
  have c: "strict_eq (lookup job ''type'') (Some (JStr ''ping'')) \<longrightarrow>
      snd (ping_on_message e (Rejects err1) (Rejects err2) m (Parsed job)) = []"
  proof
    assume t: "strict_eq (lookup job ''type'') (Some (JStr ''ping''))"
    show "snd (ping_on_message e (Rejects err1) (Rejects err2) m (Parsed job)) = []"
      using processPingJob_both_rejected [of e err1 err2 job]
      by (cases "template (ping_print e) (lookup job ''target'')")
         (simp_all add: ping_on_message_ping [OF t])
  qed
  have d: "\<not> strict_eq (lookup job ''type'') (Some (JStr ''ping'')) \<longrightarrow>
        ping_on_message e b1 b2 m (Parsed job) = (m, [])"
    using ping_on_message_other_kind [of job e b1 b2 m] by blast
  have f: "ping_on_message e b1 b2 m Malformed = (m, [])"
    by (simp add: ping_on_message_def)
  have g: "fst (ping_on_message e b1 b2 m p) = m" by (rule ping_on_message_state)
  from a b c d f g show ?thesis by blast
qed

theorem ping_worker_publishes_once_witness:
  "strict_eq (lookup sample_job ''type'') (Some (JStr ''ping''))
   \<and> printable (lookup sample_job ''target'') \<and> printable (lookup sample_job ''id'')
   \<and> strategy_fails sample_ping_env (lookup sample_job ''target'')
   \<and> (\<exists>r. ping_on_message sample_ping_env Accepts Accepts sample_module (Parsed sample_job)
             = (sample_module, [Publish ''mmn.jobs.result.job_1'' r])
          \<and> path r [''result'', ''success''] = Some (JBool False))
   \<and> \<not> strict_eq (lookup sample_dns_job ''type'') (Some (JStr ''ping''))
   \<and> ping_on_message sample_ping_env Accepts Accepts sample_module (Parsed sample_dns_job)
       = (sample_module, [])"
proof -
  have t: "strict_eq (lookup sample_job ''type'') (Some (JStr ''ping''))"
    by (simp add: sample_job_def)
  have p: "printable (lookup sample_job ''target'')" "printable (lookup sample_job ''id'')"
    by (simp_all add: sample_job_def printable_def)
  have f: "strategy_fails sample_ping_env (lookup sample_job ''target'')"
    by (simp add: strategy_fails_def sample_job_def sample_ping_env_def)
  have i: "reply_topic (ping_print sample_ping_env) (lookup sample_job ''id'') = Inr ''mmn.jobs.result.job_1''"
    by (simp add: reply_topic_def template_def sample_job_def)
  have d: "\<not> strict_eq (lookup sample_dns_job ''type'') (Some (JStr ''ping''))"
    by (simp add: sample_dns_job_def)
  from ping_worker_publishes_once [of sample_job sample_ping_env sample_module Accepts Accepts
      bus_closed bus_closed Malformed] t p f
  obtain topic r where "reply_topic (ping_print sample_ping_env) (lookup sample_job ''id'') = Inr topic"
    and "ping_on_message sample_ping_env Accepts Accepts sample_module (Parsed sample_job)
             = (sample_module, [Publish topic r])"
    and "path r [''result'', ''success''] = Some (JBool False)"
    by blast
  with i have "\<exists>r. ping_on_message sample_ping_env Accepts Accepts sample_module (Parsed sample_job)
             = (sample_module, [Publish ''mmn.jobs.result.job_1'' r])
          \<and> path r [''result'', ''success''] = Some (JBool False)"
    by auto
  moreover from ping_worker_publishes_once [of sample_dns_job sample_ping_env sample_module Accepts Accepts
      bus_closed bus_closed Malformed] d
  have "ping_on_message sample_ping_env Accepts Accepts sample_module (Parsed sample_dns_job)
       = (sample_module, [])"
    by blast
  ultimately show ?thesis using t p f d by blast
qed

text \<open>
  Claim C2 as stated fails in two ways. When the bus is down, the publish of the \<^verbatim>\<open>try\<close>
  block throws, the \<^verbatim>\<open>catch\<close> block publishes again and that throws too; the loop's \<^verbatim>\<open>catch\<close>
  logs the error and no result is published. And for a target that cannot be converted to
  a string (here the object \<^verbatim>\<open>{"toString": 1}\<close>), the log line before \<^verbatim>\<open>processPingJob\<close> throws
  and no result is published although the bus accepts.
\<close>

theorem ping_worker_bus_down_counterexample:
  "strict_eq (lookup sample_job ''type'') (Some (JStr ''ping''))
   \<and> ping_on_message sample_ping_env (Rejects bus_closed) (Rejects bus_closed) sample_module
        (Parsed sample_job) = (sample_module, [])
   \<and> strict_eq (lookup unprintable_job ''type'') (Some (JStr ''ping''))
   \<and> ping_on_message sample_ping_env Accepts Accepts sample_module (Parsed unprintable_job)
       = (sample_module, [])"
proof -
  have t: "strict_eq (lookup sample_job ''type'') (Some (JStr ''ping''))"
    by (simp add: sample_job_def)
  have s: "template (ping_print sample_ping_env) (lookup sample_job ''target'') = Inr ''10.255.255.1''"
    by (simp add: sample_job_def template_def)
  have a: "ping_on_message sample_ping_env (Rejects bus_closed) (Rejects bus_closed) sample_module
        (Parsed sample_job) = (sample_module, [])"
    by (simp add: ping_on_message_ping [OF t] s processPingJob_both_rejected)
  have u: "strict_eq (lookup unprintable_job ''type'') (Some (JStr ''ping''))"
    by (simp add: unprintable_job_def)
  have "template (ping_print sample_ping_env) (lookup unprintable_job ''target'')
      = Inl (TypeError ''Cannot convert object to primitive value'')"
    by (simp add: unprintable_job_def template_def)
  then have b: "ping_on_message sample_ping_env Accepts Accepts sample_module (Parsed unprintable_job)
       = (sample_module, [])"
    by (simp add: ping_on_message_ping [OF u])
  from t a u b show ?thesis by blast
qed

section \<open>Properties of the DNS worker\<close>

lemma result_of_createDNSResult:
  "path (JObj (set_prop (createDNSResult e tg ok addrs rt msg rty ec) ''jobId'' jid)) [''result'', ''success'']
     = Some (JBool ok)"
  "path (JObj (set_prop (createDNSResult e tg ok addrs rt msg rty ec) ''jobId'' jid)) [''result'', ''errorCode'']
     = Some ec"
  by (simp_all add: createDNSResult_def obj_def map_of_set_prop)

lemma dns_failure_not_found:
  "code err = Some ''ENOTFOUND'' \<Longrightarrow>
   dns_failure e t err =
     createDNSResult e (Some (JStr (dns_cleanTarget t))) False [] JNull
       (''Domain not found: '' @ dns_cleanTarget t) ''A'' (JStr ''DOMAIN_NOT_FOUND'')"
  by (simp add: dns_failure_def Let_def)

lemma lookup_not_found:
  assumes "isValidDomain (Some (JStr t))"
    and "resolve4 e (dns_cleanTarget t) = Inl err" and "code err = Some ''ENOTFOUND''"
    and "resolve6 e (dns_cleanTarget t) = Inl err2"
    and "resolveAny e (dns_cleanTarget t) = Inl err3"
  shows "executeRealDNSLookup e (Some (JStr t)) =
     createDNSResult e (Some (JStr (dns_cleanTarget t))) False [] JNull
       (''Domain not found: '' @ dns_cleanTarget t) ''A'' (JStr ''DOMAIN_NOT_FOUND'')"
proof -
  from assms(2,4,5) have "resolve_chain e (dns_cleanTarget t) = Inl err"
    by (simp add: resolve_chain_def)
  with assms(1) have "executeRealDNSLookup e (Some (JStr t)) = dns_failure e t err"
    by (simp add: executeRealDNSLookup_def)
  with assms(3) show ?thesis by (simp only: dns_failure_not_found)
qed

lemma path_measurement_result:
  "path (measurement c (JObj ps)) (''result'' # ks) = path (JObj ps) (''result'' # ks)"
  by (simp add: lookup_measurement)

lemma dns_on_message_dns:
  "lookup job ''type'' = Some (JStr ''dns'') \<Longrightarrow> lookup job ''target'' = Some (JStr t) \<Longrightarrow>
   dns_on_message e b1 b2 m (Parsed job) = (m, fst (processDNSJob e b1 b2 job))"
  by (cases job) (simp_all add: dns_on_message_def template_def)

text \<open>
  Claim C9, as the code has it. For a \<^verbatim>\<open>dns\<close> job whose id can be converted to a string,
  whose target is a valid domain and whose resolution fails (the A query throws an error
  with code \<^verbatim>\<open>ENOTFOUND\<close>, and the AAAA and ANY queries throw as well), the worker, on a bus
  that accepts the publish, publishes on the job's reply topic a result with
  \<^verbatim>\<open>result.success\<close> false and \<^verbatim>\<open>result.errorCode\<close> \<^verbatim>\<open>DOMAIN_NOT_FOUND\<close>; the record that the store
  keeps of that result, appended directly or by the correlator, has the same
  \<^verbatim>\<open>result.errorCode\<close>.
\<close>

theorem dns_not_found_result_stored:
  "isValidDomain (Some (JStr t))
   \<and> lookup job ''type'' = Some (JStr ''dns'') \<and> lookup job ''target'' = Some (JStr t)
   \<and> printable (lookup job ''id'')
   \<and> resolve4 e (dns_cleanTarget t) = Inl err \<and> code err = Some ''ENOTFOUND''
   \<and> resolve6 e (dns_cleanTarget t) = Inl err2
   \<and> resolveAny e (dns_cleanTarget t) = Inl err3
   \<longrightarrow>
   (\<exists>topic r. reply_topic (dns_print e) (lookup job ''id'') = Inr topic
      \<and> dns_on_message e Accepts b2 m (Parsed job) = (m, [Publish topic r])
      \<and> path r [''result'', ''success''] = Some (JBool False)
      \<and> path r [''result'', ''errorCode''] = Some (JStr ''DOMAIN_NOT_FOUND'')
      \<and> path (hd (loadAll (snd (saveMeasurement c WriteOk f r)))) [''result'', ''errorCode'']
           = Some (JStr ''DOMAIN_NOT_FOUND'')
      \<and> path (hd (loadAll (storage (fst (on_result c WriteOk s (Parsed r)))))) [''result'', ''errorCode'']
           = Some (JStr ''DOMAIN_NOT_FOUND''))"
proof
  assume h: "isValidDomain (Some (JStr t))
   \<and> lookup job ''type'' = Some (JStr ''dns'') \<and> lookup job ''target'' = Some (JStr t)
   \<and> printable (lookup job ''id'')
   \<and> resolve4 e (dns_cleanTarget t) = Inl err \<and> code err = Some ''ENOTFOUND''
   \<and> resolve6 e (dns_cleanTarget t) = Inl err2
   \<and> resolveAny e (dns_cleanTarget t) = Inl err3"
  let ?d = "createDNSResult e (Some (JStr (dns_cleanTarget t))) False [] JNull
       (''Domain not found: '' @ dns_cleanTarget t) ''A'' (JStr ''DOMAIN_NOT_FOUND'')"
  let ?ps = "set_prop ?d ''jobId'' (lookup job ''id'')"
  let ?r = "JObj ?ps"
  from h reply_topic_printable obtain topic
    where t: "reply_topic (dns_print e) (lookup job ''id'') = Inr topic" by blast
  from h have g: "template (dns_print e) (lookup job ''target'') = Inr t"
    by (simp add: template_def)
  from h have l: "executeRealDNSLookup e (lookup job ''target'') = ?d"
    using lookup_not_found [of t e err err2 err3] by simp
  have p: "processDNSJob e Accepts b2 job = ([Publish topic ?r], None)"
    unfolding processDNSJob_def l by (simp add: Let_def t g)
  from h have m: "dns_on_message e Accepts b2 m (Parsed job) = (m, [Publish topic ?r])"
    by (simp add: dns_on_message_dns p)
  have s1: "path ?r [''result'', ''success''] = Some (JBool False)"
    by (rule result_of_createDNSResult)
  have s2: "path ?r [''result'', ''errorCode''] = Some (JStr ''DOMAIN_NOT_FOUND'')"
    by (rule result_of_createDNSResult)
  have s3: "\<And>g. path (hd (loadAll (snd (saveMeasurement c WriteOk g ?r)))) [''result'', ''errorCode'']
           = Some (JStr ''DOMAIN_NOT_FOUND'')"
    unfolding written_head list.sel path_measurement_result by (rule s2)
  have st: "storage (fst (on_result c WriteOk s (Parsed ?r))) = snd (saveMeasurement c WriteOk (storage s) ?r)"
    by (simp add: on_result_not_null)
  have s4: "path (hd (loadAll (storage (fst (on_result c WriteOk s (Parsed ?r)))))) [''result'', ''errorCode'']
           = Some (JStr ''DOMAIN_NOT_FOUND'')"
    unfolding st by (rule s3)
  from t m s1 s2 s3 [of f] s4 show "\<exists>topic r. reply_topic (dns_print e) (lookup job ''id'') = Inr topic
      \<and> dns_on_message e Accepts b2 m (Parsed job) = (m, [Publish topic r])
      \<and> path r [''result'', ''success''] = Some (JBool False)
      \<and> path r [''result'', ''errorCode''] = Some (JStr ''DOMAIN_NOT_FOUND'')
      \<and> path (hd (loadAll (snd (saveMeasurement c WriteOk f r)))) [''result'', ''errorCode'']
           = Some (JStr ''DOMAIN_NOT_FOUND'')
      \<and> path (hd (loadAll (storage (fst (on_result c WriteOk s (Parsed r)))))) [''result'', ''errorCode'']
           = Some (JStr ''DOMAIN_NOT_FOUND'')"
    by blast
qed

lemma sample_domain_valid: "isValidDomain (Some (JStr ''nonexistent.invalid''))"
  by (simp add: isValidDomain_def dns_cleanTarget_def trim_def strip_www_def strip_protocol_def
        is_white_space_def is_line_terminator_def domainRegex_def valid_label_def is_alnum_def)

theorem dns_not_found_result_stored_witness:
  "isValidDomain (Some (JStr ''nonexistent.invalid''))
   \<and> code not_found = Some ''ENOTFOUND''
   \<and> printable (lookup sample_dns_job ''id'')
   \<and> (\<exists>r. dns_on_message sample_dns_env Accepts Accepts sample_module (Parsed sample_dns_job)
             = (sample_module, [Publish ''mmn.jobs.result.job_2'' r])
          \<and> path r [''result'', ''success''] = Some (JBool False)
          \<and> path r [''result'', ''errorCode''] = Some (JStr ''DOMAIN_NOT_FOUND'')
          \<and> path (hd (loadAll (snd (saveMeasurement sample_clock WriteOk (Content []) r))))
                [''result'', ''errorCode''] = Some (JStr ''DOMAIN_NOT_FOUND''))"
proof -
  have c: "code not_found = Some ''ENOTFOUND''" by (simp add: not_found_def)
  have j: "lookup sample_dns_job ''type'' = Some (JStr ''dns'')"
    "lookup sample_dns_job ''target'' = Some (JStr ''nonexistent.invalid'')"
    by (simp_all add: sample_dns_job_def)
  have p: "printable (lookup sample_dns_job ''id'')"
    by (simp add: sample_dns_job_def printable_def)
  have i: "reply_topic (dns_print sample_dns_env) (lookup sample_dns_job ''id'') = Inr ''mmn.jobs.result.job_2''"
    by (simp add: reply_topic_def template_def sample_dns_job_def)
  have r: "resolve4 sample_dns_env (dns_cleanTarget ''nonexistent.invalid'') = Inl not_found"
    "resolve6 sample_dns_env (dns_cleanTarget ''nonexistent.invalid'') = Inl not_found"
    "resolveAny sample_dns_env (dns_cleanTarget ''nonexistent.invalid'') = Inl not_found"
    by (simp_all add: sample_dns_env_def)
  from dns_not_found_result_stored [of "''nonexistent.invalid''" sample_dns_job sample_dns_env
      not_found not_found not_found Accepts sample_module sample_clock "Content []" sample_api]
    sample_domain_valid c j p r
  obtain topic r where "reply_topic (dns_print sample_dns_env) (lookup sample_dns_job ''id'') = Inr topic"
    and "dns_on_message sample_dns_env Accepts Accepts sample_module (Parsed sample_dns_job)
             = (sample_module, [Publish topic r])"
    and "path r [''result'', ''success''] = Some (JBool False)"
    and "path r [''result'', ''errorCode''] = Some (JStr ''DOMAIN_NOT_FOUND'')"
    and "path (hd (loadAll (snd (saveMeasurement sample_clock WriteOk (Content []) r))))
                [''result'', ''errorCode''] = Some (JStr ''DOMAIN_NOT_FOUND'')"
    by blast
  with i have "\<exists>r. dns_on_message sample_dns_env Accepts Accepts sample_module (Parsed sample_dns_job)
             = (sample_module, [Publish ''mmn.jobs.result.job_2'' r])
          \<and> path r [''result'', ''success''] = Some (JBool False)
          \<and> path r [''result'', ''errorCode''] = Some (JStr ''DOMAIN_NOT_FOUND'')
          \<and> path (hd (loadAll (snd (saveMeasurement sample_clock WriteOk (Content []) r))))
                [''result'', ''errorCode''] = Some (JStr ''DOMAIN_NOT_FOUND'')"
    by auto
  then show ?thesis using sample_domain_valid c p by blast
qed

lemma processDNSJob_both_rejected:
  "fst (processDNSJob e (Rejects err1) (Rejects err2) job) = []"
  by (simp add: processDNSJob_def processDNSJob_catch_def Let_def split: sum.splits)

text \<open>
  Claim C9 as stated fails in two ways, for a job whose target fails resolution with
  \<^verbatim>\<open>ENOTFOUND\<close>. With an id that cannot be converted to a string (here the object
  \<^verbatim>\<open>{"toString": 1}\<close>), the subject template throws in the \<^verbatim>\<open>try\<close> block and again in the
  \<^verbatim>\<open>catch\<close> block, and no result is published. And when the bus rejects both publish calls,
  no result is published either.
\<close>

theorem dns_unprintable_id_counterexample:
  "isValidDomain (Some (JStr ''nonexistent.invalid''))
   \<and> lookup unprintable_dns_job ''type'' = Some (JStr ''dns'')
   \<and> lookup unprintable_dns_job ''target'' = Some (JStr ''nonexistent.invalid'')
   \<and> resolve4 sample_dns_env (dns_cleanTarget ''nonexistent.invalid'') = Inl not_found
   \<and> resolve6 sample_dns_env (dns_cleanTarget ''nonexistent.invalid'') = Inl not_found
   \<and> resolveAny sample_dns_env (dns_cleanTarget ''nonexistent.invalid'') = Inl not_found
   \<and> code not_found = Some ''ENOTFOUND''
   \<and> dns_on_message sample_dns_env Accepts Accepts sample_module (Parsed unprintable_dns_job)
       = (sample_module, [])
   \<and> lookup sample_dns_job ''type'' = Some (JStr ''dns'')
   \<and> lookup sample_dns_job ''target'' = Some (JStr ''nonexistent.invalid'')
   \<and> dns_on_message sample_dns_env (Rejects bus_closed) (Rejects bus_closed) sample_module
        (Parsed sample_dns_job) = (sample_module, [])"
proof -
  have k: "lookup sample_dns_job ''type'' = Some (JStr ''dns'')"
    "lookup sample_dns_job ''target'' = Some (JStr ''nonexistent.invalid'')"
    by (simp_all add: sample_dns_job_def)
  then have d: "dns_on_message sample_dns_env (Rejects bus_closed) (Rejects bus_closed) sample_module
        (Parsed sample_dns_job) = (sample_module, [])"
    by (simp add: dns_on_message_dns processDNSJob_both_rejected)
  have j: "lookup unprintable_dns_job ''type'' = Some (JStr ''dns'')"
    "lookup unprintable_dns_job ''target'' = Some (JStr ''nonexistent.invalid'')"
    by (simp_all add: unprintable_dns_job_def)
  have r: "resolve4 sample_dns_env (dns_cleanTarget ''nonexistent.invalid'') = Inl not_found"
    "resolve6 sample_dns_env (dns_cleanTarget ''nonexistent.invalid'') = Inl not_found"
    "resolveAny sample_dns_env (dns_cleanTarget ''nonexistent.invalid'') = Inl not_found"
    by (simp_all add: sample_dns_env_def)
  have c: "code not_found = Some ''ENOTFOUND''" by (simp add: not_found_def)
  have i: "reply_topic (dns_print sample_dns_env) (lookup unprintable_dns_job ''id'')
      = Inl (TypeError ''Cannot convert object to primitive value'')"
    by (simp add: reply_topic_def template_def unprintable_dns_job_def)
  have g: "template (dns_print sample_dns_env) (lookup unprintable_dns_job ''target'') = Inr ''nonexistent.invalid''"
    by (simp add: template_def unprintable_dns_job_def)
  have "fst (processDNSJob sample_dns_env Accepts Accepts unprintable_dns_job) = []"
    by (simp add: processDNSJob_def processDNSJob_catch_def Let_def i g dns_createErrorResult_def)
  with j have "dns_on_message sample_dns_env Accepts Accepts sample_module (Parsed unprintable_dns_job)
       = (sample_module, [])"
    by (simp add: dns_on_message_dns)
  with sample_domain_valid j r c k d show ?thesis by blast
qed

end
